theory Spec2Isabelle
  imports Complex_Main "HOL-Library.AList"
begin

section \<open>CoreMint: the user repository and the protected API routes\<close>

text \<open>
  A shallow embedding of \<^verbatim>\<open>lib/db/user.ts\<close> and of the route handlers under
  \<^verbatim>\<open>app/api\<close>. The Prisma client is the boundary: each awaited Prisma call is one
  atomic step on the stored tables, it may throw, and a call that throws stores nothing.
\<close>

subsection \<open>JSON values\<close>

text \<open>
  Prisma's \<^verbatim>\<open>JsonValue\<close>. An object is the list of its properties in insertion
  order (keys distinct). A number of a JSON value is a finite double, so it is taken as the
  rational it denotes; the code never inspects numbers. A string is the list of its UTF-8
  bytes.
\<close>

datatype json =
    JNull
  | JBool bool
  | JNum rat
  | JStr string
  | JArr "json list"
  | JObj "(string \<times> json) list"

text \<open>\<^verbatim>\<open>Array.isArray\<close>\<close>

fun isArray :: "json \<Rightarrow> bool" where
  "isArray (JArr xs) = True"
| "isArray _ = False"

text \<open>
  \<^verbatim>\<open>Array.prototype.slice(start)\<close> with the end left out: a negative start counts
  from the end, and both are clamped to the array.
\<close>

definition slice :: "int \<Rightarrow> 'a list \<Rightarrow> 'a list" where
  "slice start xs =
     (let n = int (length xs);
          k = (if start < 0 then max (n + start) 0 else min start n)
      in drop (nat k) xs)"

text \<open>
  The object literal \<^verbatim>\<open>{ ...connectionData, timestamp: t }\<close>: the properties of
  \<^verbatim>\<open>connectionData\<close> in their order, then \<^verbatim>\<open>timestamp\<close>, which replaces the
  value of a property of that name in place, or else comes last.
\<close>

definition with_timestamp :: "(string \<times> json) list \<Rightarrow> string \<Rightarrow> json" where
  "with_timestamp connectionData t = JObj (AList.update ''timestamp'' (JStr t) connectionData)"

subsection \<open>The stored tables\<close>

text \<open>A \<^verbatim>\<open>Date\<close> is its time value, the milliseconds since the epoch.\<close>

type_synonym date = nat

text \<open>
  \<^verbatim>\<open>model User\<close> of the Prisma schema: \<^verbatim>\<open>id\<close> is the ObjectId the store
  assigns, \<^verbatim>\<open>walletAddress\<close> carries the unique index that
  \<^verbatim>\<open>findUnique({ where: { walletAddress } })\<close> relies on, \<^verbatim>\<open>loginCount\<close> defaults
  to 0 and \<^verbatim>\<open>lastLoginAt\<close> is optional. The counter is an integer without a bound
  here: the range of the stored \<^verbatim>\<open>Int\<close> plays no role below.
\<close>

record user =
  user_id :: string
  walletAddress :: string
  createdAt :: date
  updatedAt :: date
  lastLoginAt :: "date option"
  loginCount :: int
  connectionHistory :: json

record nft =
  nft_id :: string
  nft_name :: string
  nft_description :: "string option"
  nft_image :: string
  nft_metadata :: json
  tokenId :: "string option"
  contractAddress :: "string option"
  isMinted :: bool
  mintedAt :: "date option"
  nft_createdAt :: date
  nft_updatedAt :: date
  ownerId :: string
  collectionId :: "string option"

record collection =
  col_id :: string
  col_name :: string
  col_description :: "string option"
  col_image :: "string option"
  col_banner :: "string option"
  isPublic :: bool
  col_createdAt :: date
  col_updatedAt :: date
  col_ownerId :: string

record tx =
  tx_id :: string
  txHash :: string
  tx_type :: string
  tx_status :: string
  blockHeight :: "int option"
  tx_createdAt :: date
  tx_updatedAt :: date
  tx_userId :: string
  tx_nftId :: "string option"

text \<open>
  The database: the four collections, each in insertion order, and \<open>outage\<close>, the
  fate of the storage calls still to come: each Prisma call takes the head, and throws
  when it is \<open>True\<close>; with the list used up every call goes through.
\<close>

record db =
  users :: "user list"
  nfts :: "nft list"
  collections :: "collection list"
  transactions :: "tx list"
  outage :: "bool list"

datatype error =
    StorageFailure
  | RecordNotFound
  | UniqueConstraint
  | Error string
  | BodyUnreadable
  | ZodError "string list"

type_synonym 'a result = "(error + 'a) \<times> db"

definition storage_call :: "db \<Rightarrow> bool \<times> db" where
  "storage_call d =
     (case outage d of
        [] \<Rightarrow> (False, d)
      | failing # rest \<Rightarrow> (failing, d\<lparr>outage := rest\<rparr>))"

text \<open>
  The ObjectId of a new document differs from every id in the collection; which one it
  is plays no role, so the model takes a string longer than all of them.
\<close>

definition new_object_id :: "string list \<Rightarrow> string" where
  "new_object_id ids = replicate (Suc (foldr max (map length ids) 0)) (CHR ''0'')"

fun update_where :: "('a \<Rightarrow> bool) \<Rightarrow> 'a \<Rightarrow> 'a list \<Rightarrow> 'a list" where
  "update_where P y [] = []"
| "update_where P y (x # xs) = (if P x then y # xs else x # update_where P y xs)"

subsection \<open>Prisma calls on the user collection\<close>

definition prisma_user_findUnique_id :: "db \<Rightarrow> string \<Rightarrow> user option result" where
  "prisma_user_findUnique_id d i =
     (case storage_call d of
        (True, d1) \<Rightarrow> (Inl StorageFailure, d1)
      | (False, d1) \<Rightarrow> (Inr (find (\<lambda>u. user_id u = i) (users d1)), d1))"

definition prisma_user_findUnique_walletAddress :: "db \<Rightarrow> string \<Rightarrow> user option result" where
  "prisma_user_findUnique_walletAddress d a =
     (case storage_call d of
        (True, d1) \<Rightarrow> (Inl StorageFailure, d1)
      | (False, d1) \<Rightarrow> (Inr (find (\<lambda>u. walletAddress u = a) (users d1)), d1))"

text \<open>
  \<^verbatim>\<open>prisma.user.create({ data: { walletAddress, connectionHistory } })\<close>: the unique
  index rejects a second document with the same wallet address; the other fields take
  their schema defaults.
\<close>

definition prisma_user_create :: "db \<Rightarrow> string \<Rightarrow> json \<Rightarrow> date \<Rightarrow> user result" where
  "prisma_user_create d a h now =
     (case storage_call d of
        (True, d1) \<Rightarrow> (Inl StorageFailure, d1)
      | (False, d1) \<Rightarrow>
          if \<exists>u \<in> set (users d1). walletAddress u = a then (Inl UniqueConstraint, d1)
          else
            let u = \<lparr>user_id = new_object_id (map user_id (users d1)), walletAddress = a,
                     createdAt = now, updatedAt = now, lastLoginAt = None, loginCount = 0,
                     connectionHistory = h\<rparr>
            in (Inr u, d1\<lparr>users := users d1 @ [u]\<rparr>))"

text \<open>
  \<^verbatim>\<open>prisma.user.update({ where: { id }, data })\<close>: \<open>patch\<close> sets the fields named
  in \<^verbatim>\<open>data\<close>, the others stay, \<^verbatim>\<open>@updatedAt\<close> is stamped; it throws when no
  document has the id.
\<close>

definition prisma_user_update :: "db \<Rightarrow> string \<Rightarrow> (user \<Rightarrow> user) \<Rightarrow> date \<Rightarrow> user result" where
  "prisma_user_update d i patch now =
     (case storage_call d of
        (True, d1) \<Rightarrow> (Inl StorageFailure, d1)
      | (False, d1) \<Rightarrow>
          (case find (\<lambda>u. user_id u = i) (users d1) of
             None \<Rightarrow> (Inl RecordNotFound, d1)
           | Some u \<Rightarrow>
               let u' = (patch u)\<lparr>updatedAt := now\<rparr>
               in (Inr u', d1\<lparr>users := update_where (\<lambda>r. user_id r = i) u' (users d1)\<rparr>)))"

subsection \<open>\<^verbatim>\<open>lib/db/user.ts\<close>: users\<close>

text \<open>\<^verbatim>\<open>ClientSessionUser\<close>, what \<^verbatim>\<open>createUser\<close> returns.\<close>

record client_session_user =
  csu_id :: string
  csu_walletAddress :: string

definition createUser :: "db \<Rightarrow> string \<Rightarrow> date \<Rightarrow> client_session_user result" where
  "createUser d a now =
     (case prisma_user_create d a (JArr []) now of
        (Inl e, d1) \<Rightarrow> (Inl e, d1)
      | (Inr u, d1) \<Rightarrow> (Inr \<lparr>csu_id = user_id u, csu_walletAddress = walletAddress u\<rparr>, d1))"

definition updateUserLogin :: "db \<Rightarrow> string \<Rightarrow> date \<Rightarrow> user result" where
  "updateUserLogin d userId now =
     prisma_user_update d userId
       (\<lambda>u. u\<lparr>lastLoginAt := Some now, loginCount := loginCount u + 1\<rparr>) now"

definition getUserById :: "db \<Rightarrow> string \<Rightarrow> user option result" where
  "getUserById d userId = prisma_user_findUnique_id d userId"

text \<open>
  \<open>toISOString\<close> is the runtime's \<^verbatim>\<open>Date.prototype.toISOString\<close>, a parameter
  here; \<open>now\<close> is what \<^verbatim>\<open>new Date()\<close> gives during the call. The case on the
  stored JSON is \<^verbatim>\<open>Array.isArray(user.connectionHistory) ? user.connectionHistory : []\<close>.
\<close>

definition addConnectionHistory ::
  "(date \<Rightarrow> string) \<Rightarrow> db \<Rightarrow> string \<Rightarrow> (string \<times> json) list \<Rightarrow> date \<Rightarrow> user result" where
  "addConnectionHistory toISOString d userId connectionData now =
     (case prisma_user_findUnique_id d userId of
        (Inl e, d1) \<Rightarrow> (Inl e, d1)
      | (Inr None, d1) \<Rightarrow> (Inl (Error ''User not found''), d1)
      | (Inr (Some u), d1) \<Rightarrow>
          let history = (case connectionHistory u of JArr xs \<Rightarrow> xs | _ \<Rightarrow> []);
              updatedHistory =
                slice (- 10) (history @ [with_timestamp connectionData (toISOString now)])
          in prisma_user_update d1 userId
               (\<lambda>r. r\<lparr>connectionHistory := JArr updatedHistory\<rparr>) now)"

text \<open>
  \<^verbatim>\<open>include: { nfts: true, collections: true }\<close> adds the documents that refer to
  the user.
\<close>

definition findUserByWalletAddress ::
  "db \<Rightarrow> string \<Rightarrow> (user \<times> nft list \<times> collection list) option result" where
  "findUserByWalletAddress d a =
     (case prisma_user_findUnique_walletAddress d a of
        (Inl e, d1) \<Rightarrow> (Inl e, d1)
      | (Inr None, d1) \<Rightarrow> (Inr None, d1)
      | (Inr (Some u), d1) \<Rightarrow>
          (Inr (Some (u, filter (\<lambda>n. ownerId n = user_id u) (nfts d1),
                      filter (\<lambda>c. col_ownerId c = user_id u) (collections d1))), d1))"

subsection \<open>\<^verbatim>\<open>lib/db/user.ts\<close>: NFTs, collections, transactions\<close>

text \<open>The relations an \<^verbatim>\<open>include\<close> follows.\<close>

definition owner_of :: "db \<Rightarrow> string \<Rightarrow> user option" where
  "owner_of d i = find (\<lambda>u. user_id u = i) (users d)"

definition collection_of :: "db \<Rightarrow> string option \<Rightarrow> collection option" where
  "collection_of d c = (case c of None \<Rightarrow> None | Some i \<Rightarrow> find (\<lambda>k. col_id k = i) (collections d))"

definition transactions_of :: "db \<Rightarrow> string \<Rightarrow> tx list" where
  "transactions_of d i = filter (\<lambda>t. tx_nftId t = Some i) (transactions d)"

definition nfts_in :: "db \<Rightarrow> string \<Rightarrow> nft list" where
  "nfts_in d c = filter (\<lambda>n. collectionId n = Some c) (nfts d)"

text \<open>
  \<^verbatim>\<open>orderBy: { createdAt: "desc" }\<close>; among documents of one date the order is
  the store's, here the later document first.
\<close>

definition newest_first :: "('a \<Rightarrow> date) \<Rightarrow> 'a list \<Rightarrow> 'a list" where
  "newest_first created xs = rev (sort_key created xs)"

record nft_data =
  d_name :: string
  d_description :: "string option"
  d_image :: string
  d_metadata :: json
  d_ownerId :: string
  d_collectionId :: "string option"

definition createNFT ::
  "db \<Rightarrow> nft_data \<Rightarrow> date \<Rightarrow> (nft \<times> user option \<times> collection option) result" where
  "createNFT d dat now =
     (case storage_call d of
        (True, d1) \<Rightarrow> (Inl StorageFailure, d1)
      | (False, d1) \<Rightarrow>
          let n = \<lparr>nft_id = new_object_id (map nft_id (nfts d1)), nft_name = d_name dat,
                   nft_description = d_description dat, nft_image = d_image dat,
                   nft_metadata = d_metadata dat, tokenId = None, contractAddress = None,
                   isMinted = False, mintedAt = None, nft_createdAt = now, nft_updatedAt = now,
                   ownerId = d_ownerId dat, collectionId = d_collectionId dat\<rparr>
          in (Inr (n, owner_of d1 (ownerId n), collection_of d1 (collectionId n)),
              d1\<lparr>nfts := nfts d1 @ [n]\<rparr>))"

definition getNFTsByOwner :: "db \<Rightarrow> string \<Rightarrow> (nft \<times> collection option \<times> tx list) list result" where
  "getNFTsByOwner d owner =
     (case storage_call d of
        (True, d1) \<Rightarrow> (Inl StorageFailure, d1)
      | (False, d1) \<Rightarrow>
          (Inr (map (\<lambda>n. (n, collection_of d1 (collectionId n), transactions_of d1 (nft_id n)))
                  (newest_first nft_createdAt (filter (\<lambda>n. ownerId n = owner) (nfts d1)))), d1))"

definition getNFTById ::
  "db \<Rightarrow> string \<Rightarrow> (nft \<times> user option \<times> collection option \<times> tx list) option result" where
  "getNFTById d i =
     (case storage_call d of
        (True, d1) \<Rightarrow> (Inl StorageFailure, d1)
      | (False, d1) \<Rightarrow>
          (case find (\<lambda>n. nft_id n = i) (nfts d1) of
             None \<Rightarrow> (Inr None, d1)
           | Some n \<Rightarrow>
               (Inr (Some (n, owner_of d1 (ownerId n), collection_of d1 (collectionId n),
                           transactions_of d1 (nft_id n))), d1)))"

definition updateNFTMintStatus :: "db \<Rightarrow> string \<Rightarrow> string \<Rightarrow> string \<Rightarrow> date \<Rightarrow> nft result" where
  "updateNFTMintStatus d i token contract now =
     (case storage_call d of
        (True, d1) \<Rightarrow> (Inl StorageFailure, d1)
      | (False, d1) \<Rightarrow>
          (case find (\<lambda>n. nft_id n = i) (nfts d1) of
             None \<Rightarrow> (Inl RecordNotFound, d1)
           | Some n \<Rightarrow>
               let n' = n\<lparr>isMinted := True, tokenId := Some token,
                          contractAddress := Some contract, mintedAt := Some now,
                          nft_updatedAt := now\<rparr>
               in (Inr n', d1\<lparr>nfts := update_where (\<lambda>r. nft_id r = i) n' (nfts d1)\<rparr>)))"

record collection_data =
  c_name :: string
  c_description :: "string option"
  c_image :: "string option"
  c_banner :: "string option"
  c_isPublic :: "bool option"
  c_ownerId :: string

definition createCollection ::
  "db \<Rightarrow> collection_data \<Rightarrow> date \<Rightarrow> (collection \<times> user option \<times> nft list) result" where
  "createCollection d dat now =
     (case storage_call d of
        (True, d1) \<Rightarrow> (Inl StorageFailure, d1)
      | (False, d1) \<Rightarrow>
          let c = \<lparr>col_id = new_object_id (map col_id (collections d1)), col_name = c_name dat,
                   col_description = c_description dat, col_image = c_image dat,
                   col_banner = c_banner dat,
                   isPublic = (case c_isPublic dat of None \<Rightarrow> True | Some b \<Rightarrow> b),
                   col_createdAt = now, col_updatedAt = now, col_ownerId = c_ownerId dat\<rparr>
          in (Inr (c, owner_of d1 (col_ownerId c), nfts_in d1 (col_id c)),
              d1\<lparr>collections := collections d1 @ [c]\<rparr>))"

definition getCollectionsByOwner :: "db \<Rightarrow> string \<Rightarrow> (collection \<times> nft list) list result" where
  "getCollectionsByOwner d owner =
     (case storage_call d of
        (True, d1) \<Rightarrow> (Inl StorageFailure, d1)
      | (False, d1) \<Rightarrow>
          (Inr (map (\<lambda>c. (c, nfts_in d1 (col_id c)))
                  (newest_first col_createdAt
                     (filter (\<lambda>c. col_ownerId c = owner) (collections d1)))), d1))"

definition getPublicCollections :: "db \<Rightarrow> (collection \<times> user option \<times> nft list) list result" where
  "getPublicCollections d =
     (case storage_call d of
        (True, d1) \<Rightarrow> (Inl StorageFailure, d1)
      | (False, d1) \<Rightarrow>
          (Inr (map (\<lambda>c. (c, owner_of d1 (col_ownerId c), nfts_in d1 (col_id c)))
                  (newest_first col_createdAt (filter isPublic (collections d1)))), d1))"

record tx_data =
  t_txHash :: string
  t_type :: string
  t_status :: string
  t_userId :: string
  t_nftId :: "string option"
  t_blockHeight :: "int option"

text \<open>
  \<^verbatim>\<open>txHash\<close> is the key of \<^verbatim>\<open>update({ where: { txHash } })\<close>, so it carries a
  unique index as well.
\<close>

definition createTransaction ::
  "db \<Rightarrow> tx_data \<Rightarrow> date \<Rightarrow> (tx \<times> user option \<times> nft option) result" where
  "createTransaction d dat now =
     (case storage_call d of
        (True, d1) \<Rightarrow> (Inl StorageFailure, d1)
      | (False, d1) \<Rightarrow>
          if \<exists>t \<in> set (transactions d1). txHash t = t_txHash dat then (Inl UniqueConstraint, d1)
          else
            let t = \<lparr>tx_id = new_object_id (map tx_id (transactions d1)),
                     txHash = t_txHash dat, tx_type = t_type dat, tx_status = t_status dat,
                     blockHeight = t_blockHeight dat, tx_createdAt = now, tx_updatedAt = now,
                     tx_userId = t_userId dat, tx_nftId = t_nftId dat\<rparr>
            in (Inr (t, owner_of d1 (tx_userId t),
                     (case tx_nftId t of None \<Rightarrow> None
                      | Some i \<Rightarrow> find (\<lambda>n. nft_id n = i) (nfts d1))),
                d1\<lparr>transactions := transactions d1 @ [t]\<rparr>))"

definition updateTransactionStatus ::
  "db \<Rightarrow> string \<Rightarrow> string \<Rightarrow> int option \<Rightarrow> date \<Rightarrow> tx result" where
  "updateTransactionStatus d h st height now =
     (case storage_call d of
        (True, d1) \<Rightarrow> (Inl StorageFailure, d1)
      | (False, d1) \<Rightarrow>
          (case find (\<lambda>t. txHash t = h) (transactions d1) of
             None \<Rightarrow> (Inl RecordNotFound, d1)
           | Some t \<Rightarrow>
               let t' = t\<lparr>tx_status := st,
                          blockHeight := (case height of None \<Rightarrow> blockHeight t | Some b \<Rightarrow> Some b),
                          tx_updatedAt := now\<rparr>
               in (Inr t', d1\<lparr>transactions := update_where (\<lambda>r. txHash r = h) t' (transactions d1)\<rparr>)))"

subsection \<open>Requests, schemas, responses\<close>

text \<open>
  What a handler reads of a \<^verbatim>\<open>NextRequest\<close>: the \<^verbatim>\<open>public\<close> search parameter,
  the result of \<^verbatim>\<open>request.json()\<close> (\<open>None\<close> when it throws) and the
  \<^verbatim>\<open>Authorization\<close> header, which only \<^verbatim>\<open>verifyAuth\<close> looks at.
  \<^verbatim>\<open>verifyAuth\<close> (\<^verbatim>\<open>lib/auth/middleware\<close>) is a parameter of the handlers: it
  yields the authenticated identity, \<open>None\<close> (\<^verbatim>\<open>null\<close>), or throws.
\<close>

record request =
  search_public :: "string option"
  json_body :: "json option"
  authorization :: "string option"

record auth_user =
  auth_userId :: string

type_synonym verify_auth = "request \<Rightarrow> error + auth_user option"

datatype payload =
    ErrorBody string
  | ErrorDetails string "string list"
  | NftsBody "(nft \<times> collection option \<times> tx list) list"
  | NftBody "nft \<times> user option \<times> collection option"
  | MintedBody nft
  | OwnCollectionsBody "(collection \<times> nft list) list"
  | PublicCollectionsBody "(collection \<times> user option \<times> nft list) list"
  | CollectionBody "collection \<times> user option \<times> nft list"

record response =
  status :: nat
  payload :: payload

text \<open>
  The zod schemas. A \<open>ZodError\<close> carries the keys that have an issue (the empty key
  when the body is no object at all); the wording of the issues is the library's.
\<close>

fun is_string :: "json option \<Rightarrow> bool" where
  "is_string (Some (JStr s)) = True"
| "is_string _ = False"

fun str_of :: "json option \<Rightarrow> string" where
  "str_of (Some (JStr s)) = s"
| "str_of _ = []"

fun opt_str_of :: "json option \<Rightarrow> string option" where
  "opt_str_of (Some (JStr s)) = Some s"
| "opt_str_of _ = None"

text \<open>\<^verbatim>\<open>z.string().min(1, ...)\<close>\<close>

definition string_min1 :: "json option \<Rightarrow> bool" where
  "string_min1 v = (is_string v \<and> str_of v \<noteq> [])"

text \<open>\<^verbatim>\<open>z.string().optional()\<close>: a string, or the key is absent.\<close>

definition string_optional :: "json option \<Rightarrow> bool" where
  "string_optional v = (v = None \<or> is_string v)"

record mint_request =
  m_nftId :: string
  m_txHash :: string
  m_contractAddress :: string
  m_tokenId :: string

definition mintNFTSchema :: "json \<Rightarrow> error + mint_request" where
  "mintNFTSchema body =
     (case body of
        JObj props \<Rightarrow>
          let issues = filter (\<lambda>k. \<not> string_min1 (map_of props k))
                         [''nftId'', ''txHash'', ''contractAddress'', ''tokenId'']
          in if issues = []
             then Inr \<lparr>m_nftId = str_of (map_of props ''nftId''),
                       m_txHash = str_of (map_of props ''txHash''),
                       m_contractAddress = str_of (map_of props ''contractAddress''),
                       m_tokenId = str_of (map_of props ''tokenId'')\<rparr>
             else Inl (ZodError issues)
      | _ \<Rightarrow> Inl (ZodError [[]]))"

record create_nft_request =
  r_name :: string
  r_description :: "string option"
  r_image :: string
  r_metadata :: json
  r_collectionId :: "string option"

text \<open>
  What \<^verbatim>\<open>String.prototype.trim\<close> removes: the white space and line terminators of
  ECMAScript. Six of them are single bytes; U+00A0 is two bytes in UTF-8; U+1680,
  U+2000 to U+200A, U+2028, U+2029, U+202F, U+205F, U+3000 and U+FEFF are three.
\<close>

definition js_whitespace :: "char \<Rightarrow> bool" where
  "js_whitespace c = (c \<in> set [CHR '' '', CHR 0x09, CHR 0x0A, CHR 0x0B, CHR 0x0C, CHR 0x0D])"

definition wide_whitespace :: "string list" where
  "wide_whitespace =
     [[CHR 0xE1, CHR 0x9A, CHR 0x80],
      [CHR 0xE2, CHR 0x80, CHR 0x80], [CHR 0xE2, CHR 0x80, CHR 0x81],
      [CHR 0xE2, CHR 0x80, CHR 0x82], [CHR 0xE2, CHR 0x80, CHR 0x83],
      [CHR 0xE2, CHR 0x80, CHR 0x84], [CHR 0xE2, CHR 0x80, CHR 0x85],
      [CHR 0xE2, CHR 0x80, CHR 0x86], [CHR 0xE2, CHR 0x80, CHR 0x87],
      [CHR 0xE2, CHR 0x80, CHR 0x88], [CHR 0xE2, CHR 0x80, CHR 0x89],
      [CHR 0xE2, CHR 0x80, CHR 0x8A],
      [CHR 0xE2, CHR 0x80, CHR 0xA8], [CHR 0xE2, CHR 0x80, CHR 0xA9],
      [CHR 0xE2, CHR 0x80, CHR 0xAF], [CHR 0xE2, CHR 0x81, CHR 0x9F],
      [CHR 0xE3, CHR 0x80, CHR 0x80], [CHR 0xEF, CHR 0xBB, CHR 0xBF]]"

text \<open>The number of bytes of the white space character a string begins with, 0 if none.\<close>

definition whitespace_prefix :: "string \<Rightarrow> nat" where
  "whitespace_prefix s =
     (if s \<noteq> [] \<and> js_whitespace (hd s) then 1
      else if take 2 s = [CHR 0xC2, CHR 0xA0] then 2
      else if take 3 s \<in> set wide_whitespace then 3
      else 0)"

text \<open>\<^verbatim>\<open>val.trim().length === 0\<close>: the string is white space throughout.\<close>

function trims_to_empty :: "string \<Rightarrow> bool" where
  "trims_to_empty s =
     (if s = [] then True
      else if whitespace_prefix s = 0 then False
      else trims_to_empty (drop (whitespace_prefix s) s))"
  by pat_completeness auto
termination
  by (relation "measure length") auto

declare trims_to_empty.simps [simp del]

fun is_object :: "json option \<Rightarrow> bool" where
  "is_object (Some (JObj props)) = True"
| "is_object _ = False"

fun json_of :: "json option \<Rightarrow> json" where
  "json_of (Some j) = j"
| "json_of None = JNull"

text \<open>
  \<open>is_url\<close> stands for zod's \<^verbatim>\<open>.url()\<close> check. The transform of
  \<^verbatim>\<open>collectionId\<close> turns a blank string into \<^verbatim>\<open>undefined\<close>.
\<close>

definition createNFTSchema :: "(string \<Rightarrow> bool) \<Rightarrow> json \<Rightarrow> error + create_nft_request" where
  "createNFTSchema is_url body =
     (case body of
        JObj props \<Rightarrow>
          let v = map_of props;
              issues =
                (if string_min1 (v ''name'') then [] else [''name'']) @
                (if string_optional (v ''description'') then [] else [''description'']) @
                (if is_string (v ''image'') \<and> is_url (str_of (v ''image'')) then [] else [''image'']) @
                (if is_object (v ''metadata'') then [] else [''metadata'']) @
                (if string_optional (v ''collectionId'') then [] else [''collectionId''])
          in if issues = []
             then Inr \<lparr>r_name = str_of (v ''name''),
                       r_description = opt_str_of (v ''description''),
                       r_image = str_of (v ''image''),
                       r_metadata = json_of (v ''metadata''),
                       r_collectionId =
                         (case opt_str_of (v ''collectionId'') of
                            None \<Rightarrow> None
                          | Some c \<Rightarrow> if trims_to_empty c then None else Some c)\<rparr>
             else Inl (ZodError issues)
      | _ \<Rightarrow> Inl (ZodError [[]]))"

record create_collection_request =
  q_name :: string
  q_description :: "string option"
  q_image :: "string option"
  q_banner :: "string option"
  q_isPublic :: bool

fun is_bool :: "json option \<Rightarrow> bool" where
  "is_bool (Some (JBool b)) = True"
| "is_bool _ = False"

definition createCollectionSchema ::
  "(string \<Rightarrow> bool) \<Rightarrow> json \<Rightarrow> error + create_collection_request" where
  "createCollectionSchema is_url body =
     (case body of
        JObj props \<Rightarrow>
          let v = map_of props;
              url_optional = (\<lambda>x. x = None \<or> (is_string x \<and> is_url (str_of x)));
              issues =
                (if string_min1 (v ''name'') then [] else [''name'']) @
                (if string_optional (v ''description'') then [] else [''description'']) @
                (if url_optional (v ''image'') then [] else [''image'']) @
                (if url_optional (v ''banner'') then [] else [''banner'']) @
                (if v ''isPublic'' = None \<or> is_bool (v ''isPublic'') then [] else [''isPublic''])
          in if issues = []
             then Inr \<lparr>q_name = str_of (v ''name''),
                       q_description = opt_str_of (v ''description''),
                       q_image = opt_str_of (v ''image''),
                       q_banner = opt_str_of (v ''banner''),
                       q_isPublic = (case v ''isPublic'' of Some (JBool b) \<Rightarrow> b | _ \<Rightarrow> True)\<rparr>
             else Inl (ZodError issues)
      | _ \<Rightarrow> Inl (ZodError [[]]))"

text \<open>
  The \<^verbatim>\<open>catch\<close> blocks: the POST handlers answer a \<open>ZodError\<close> with 400 and its
  issues, everything else thrown is a 500.
\<close>

definition internal_error :: response where
  "internal_error = \<lparr>status = 500, payload = ErrorBody ''Internal server error''\<rparr>"

definition unauthorized :: response where
  "unauthorized = \<lparr>status = 401, payload = ErrorBody ''Unauthorized''\<rparr>"

fun post_catch :: "error \<Rightarrow> response" where
  "post_catch (ZodError issues) =
     \<lparr>status = 400, payload = ErrorDetails ''Invalid request data'' issues\<rparr>"
| "post_catch _ = internal_error"

subsection \<open>\<^verbatim>\<open>app/api/nfts/route.ts\<close>\<close>

definition nfts_GET :: "verify_auth \<Rightarrow> db \<Rightarrow> request \<Rightarrow> response \<times> db" where
  "nfts_GET verifyAuth d req =
     (case verifyAuth req of
        Inl e \<Rightarrow> (internal_error, d)
      | Inr None \<Rightarrow> (unauthorized, d)
      | Inr (Some user) \<Rightarrow>
          (case getNFTsByOwner d (auth_userId user) of
             (Inl e, d1) \<Rightarrow> (internal_error, d1)
           | (Inr found, d1) \<Rightarrow> (\<lparr>status = 200, payload = NftsBody found\<rparr>, d1)))"

definition nfts_POST ::
  "verify_auth \<Rightarrow> (string \<Rightarrow> bool) \<Rightarrow> db \<Rightarrow> request \<Rightarrow> date \<Rightarrow> response \<times> db" where
  "nfts_POST verifyAuth is_url d req now =
     (case verifyAuth req of
        Inl e \<Rightarrow> (post_catch e, d)
      | Inr None \<Rightarrow> (unauthorized, d)
      | Inr (Some user) \<Rightarrow>
          (case json_body req of
             None \<Rightarrow> (post_catch BodyUnreadable, d)
           | Some body \<Rightarrow>
               (case createNFTSchema is_url body of
                  Inl e \<Rightarrow> (post_catch e, d)
                | Inr r \<Rightarrow>
                    (case createNFT d
                            \<lparr>d_name = r_name r, d_description = r_description r,
                             d_image = r_image r, d_metadata = r_metadata r,
                             d_ownerId = auth_userId user, d_collectionId = r_collectionId r\<rparr> now of
                       (Inl e, d1) \<Rightarrow> (post_catch e, d1)
                     | (Inr created, d1) \<Rightarrow>
                         (\<lparr>status = 201, payload = NftBody created\<rparr>, d1)))))"

subsection \<open>\<^verbatim>\<open>app/api/nfts/mint/route.ts\<close>\<close>

definition mint_POST :: "verify_auth \<Rightarrow> db \<Rightarrow> request \<Rightarrow> date \<Rightarrow> response \<times> db" where
  "mint_POST verifyAuth d req now =
     (case verifyAuth req of
        Inl e \<Rightarrow> (post_catch e, d)
      | Inr None \<Rightarrow> (unauthorized, d)
      | Inr (Some user) \<Rightarrow>
          (case json_body req of
             None \<Rightarrow> (post_catch BodyUnreadable, d)
           | Some body \<Rightarrow>
               (case mintNFTSchema body of
                  Inl e \<Rightarrow> (post_catch e, d)
                | Inr m \<Rightarrow>
                    (case getNFTById d (m_nftId m) of
                       (Inl e, d1) \<Rightarrow> (post_catch e, d1)
                     | (Inr None, d1) \<Rightarrow>
                         (\<lparr>status = 404, payload = ErrorBody ''NFT not found''\<rparr>, d1)
                     | (Inr (Some (n, rels)), d1) \<Rightarrow>
                         if ownerId n \<noteq> auth_userId user
                         then (\<lparr>status = 403,
                                 payload = ErrorBody ''Unauthorized to mint this NFT''\<rparr>, d1)
                         else if isMinted n
                         then (\<lparr>status = 400,
                                 payload = ErrorBody ''NFT is already minted''\<rparr>, d1)
                         else
                           (case updateNFTMintStatus d1 (m_nftId m) (m_tokenId m)
                                   (m_contractAddress m) now of
                              (Inl e, d2) \<Rightarrow> (post_catch e, d2)
                            | (Inr updatedNFT, d2) \<Rightarrow>
                                (case createTransaction d2
                                        \<lparr>t_txHash = m_txHash m, t_type = ''mint'',
                                         t_status = ''pending'', t_userId = auth_userId user,
                                         t_nftId = Some (m_nftId m), t_blockHeight = None\<rparr> now of
                                   (Inl e, d3) \<Rightarrow> (post_catch e, d3)
                                 | (Inr created, d3) \<Rightarrow>
                                     (\<lparr>status = 200, payload = MintedBody updatedNFT\<rparr>, d3)))))))"

subsection \<open>\<^verbatim>\<open>app/api/collections/route.ts\<close>\<close>

definition collections_GET :: "verify_auth \<Rightarrow> db \<Rightarrow> request \<Rightarrow> response \<times> db" where
  "collections_GET verifyAuth d req =
     (if search_public req = Some ''true''
      then (case getPublicCollections d of
              (Inl e, d1) \<Rightarrow> (internal_error, d1)
            | (Inr found, d1) \<Rightarrow> (\<lparr>status = 200, payload = PublicCollectionsBody found\<rparr>, d1))
      else (case verifyAuth req of
              Inl e \<Rightarrow> (internal_error, d)
            | Inr None \<Rightarrow> (unauthorized, d)
            | Inr (Some user) \<Rightarrow>
                (case getCollectionsByOwner d (auth_userId user) of
                   (Inl e, d1) \<Rightarrow> (internal_error, d1)
                 | (Inr found, d1) \<Rightarrow>
                     (\<lparr>status = 200, payload = OwnCollectionsBody found\<rparr>, d1))))"

definition collections_POST ::
  "verify_auth \<Rightarrow> (string \<Rightarrow> bool) \<Rightarrow> db \<Rightarrow> request \<Rightarrow> date \<Rightarrow> response \<times> db" where
  "collections_POST verifyAuth is_url d req now =
     (case verifyAuth req of
        Inl e \<Rightarrow> (post_catch e, d)
      | Inr None \<Rightarrow> (unauthorized, d)
      | Inr (Some user) \<Rightarrow>
          (case json_body req of
             None \<Rightarrow> (post_catch BodyUnreadable, d)
           | Some body \<Rightarrow>
               (case createCollectionSchema is_url body of
                  Inl e \<Rightarrow> (post_catch e, d)
                | Inr q \<Rightarrow>
                    (case createCollection d
                            \<lparr>c_name = q_name q, c_description = q_description q,
                             c_image = q_image q, c_banner = q_banner q,
                             c_isPublic = Some (q_isPublic q), c_ownerId = auth_userId user\<rparr> now of
                       (Inl e, d1) \<Rightarrow> (post_catch e, d1)
                     | (Inr created, d1) \<Rightarrow>
                         (\<lparr>status = 201, payload = CollectionBody created\<rparr>, d1)))))"

section \<open>Running the repository\<close>

subsection \<open>Storage calls that go through\<close>

text \<open>
  \<open>calls_ok n d\<close>: none of the next \<open>n\<close> storage calls throws;
  \<open>after_calls n d\<close>: the database once \<open>n\<close> calls that stored nothing are over.
\<close>

definition calls_ok :: "nat \<Rightarrow> db \<Rightarrow> bool" where
  "calls_ok n d = (True \<notin> set (take n (outage d)))"

definition after_calls :: "nat \<Rightarrow> db \<Rightarrow> db" where
  "after_calls n d = d\<lparr>outage := drop n (outage d)\<rparr>"

text \<open>The history an \<^verbatim>\<open>addConnectionHistory\<close> call starts from.\<close>

definition history_of :: "user \<Rightarrow> json list" where
  "history_of u = (case connectionHistory u of JArr xs \<Rightarrow> xs | _ \<Rightarrow> [])"

text \<open>The last \<open>k\<close> elements of a list, in their order.\<close>

definition last_n :: "nat \<Rightarrow> 'a list \<Rightarrow> 'a list" where
  "last_n k xs = drop (length xs - k) xs"

subsection \<open>Logins one after the other\<close>

text \<open>
  \<^verbatim>\<open>addConnectionHistory\<close> for each login of a list in turn, every call awaited
  before the next begins; the first call that throws ends the run.
\<close>

fun record_connections ::
  "(date \<Rightarrow> string) \<Rightarrow> db \<Rightarrow> string \<Rightarrow> ((string \<times> json) list \<times> date) list \<Rightarrow> unit result" where
  "record_connections toISOString d userId [] = (Inr (), d)"
| "record_connections toISOString d userId (login # rest) =
     (case addConnectionHistory toISOString d userId (fst login) (snd login) of
        (Inl e, d1) \<Rightarrow> (Inl e, d1)
      | (Inr u, d1) \<Rightarrow> record_connections toISOString d1 userId rest)"

definition entry_of :: "(date \<Rightarrow> string) \<Rightarrow> (string \<times> json) list \<times> date \<Rightarrow> json" where
  "entry_of toISOString login = with_timestamp (fst login) (toISOString (snd login))"

subsection \<open>Any sequence of repository calls\<close>

datatype repo_call =
    FindUserByWalletAddress string
  | CreateUser string date
  | UpdateUserLogin string date
  | GetUserById string
  | AddConnectionHistory string "(string \<times> json) list" date
  | CreateNFT nft_data date
  | GetNFTsByOwner string
  | GetNFTById string
  | UpdateNFTMintStatus string string string date
  | CreateCollection collection_data date
  | GetCollectionsByOwner string
  | GetPublicCollections
  | CreateTransaction tx_data date
  | UpdateTransactionStatus string string "int option" date

text \<open>The database a call leaves behind, whether it returned or threw.\<close>

fun perform :: "(date \<Rightarrow> string) \<Rightarrow> repo_call \<Rightarrow> db \<Rightarrow> db" where
  "perform toISOString (FindUserByWalletAddress a) d = snd (findUserByWalletAddress d a)"
| "perform toISOString (CreateUser a now) d = snd (createUser d a now)"
| "perform toISOString (UpdateUserLogin i now) d = snd (updateUserLogin d i now)"
| "perform toISOString (GetUserById i) d = snd (getUserById d i)"
| "perform toISOString (AddConnectionHistory i c now) d = snd (addConnectionHistory toISOString d i c now)"
| "perform toISOString (CreateNFT dat now) d = snd (createNFT d dat now)"
| "perform toISOString (GetNFTsByOwner i) d = snd (getNFTsByOwner d i)"
| "perform toISOString (GetNFTById i) d = snd (getNFTById d i)"
| "perform toISOString (UpdateNFTMintStatus i t c now) d = snd (updateNFTMintStatus d i t c now)"
| "perform toISOString (CreateCollection dat now) d = snd (createCollection d dat now)"
| "perform toISOString (GetCollectionsByOwner i) d = snd (getCollectionsByOwner d i)"
| "perform toISOString GetPublicCollections d = snd (getPublicCollections d)"
| "perform toISOString (CreateTransaction dat now) d = snd (createTransaction d dat now)"
| "perform toISOString (UpdateTransactionStatus h st b now) d = snd (updateTransactionStatus d h st b now)"

definition perform_all :: "(date \<Rightarrow> string) \<Rightarrow> repo_call list \<Rightarrow> db \<Rightarrow> db" where
  "perform_all toISOString calls d = fold (perform toISOString) calls d"

text \<open>
  \<open>counts_kept us us'\<close>: the table \<open>us'\<close> begins with the users of \<open>us\<close>, each with
  its id and a login count that is no smaller.
\<close>

definition counts_kept :: "user list \<Rightarrow> user list \<Rightarrow> bool" where
  "counts_kept us us' =
     list_all2 (\<lambda>u u'. user_id u' = user_id u \<and> loginCount u \<le> loginCount u')
       us (take (length us) us')"

subsection \<open>Two calls at once\<close>

text \<open>
  The handlers run on one event loop, so a call is interrupted only where it awaits:
  at its Prisma calls. A task is the rest of a call between two of them.
  \<^verbatim>\<open>updateUserLogin\<close> has one storage call; \<^verbatim>\<open>addConnectionHistory\<close> has two, and
  carries the \<^verbatim>\<open>updatedHistory\<close> it computed from what it read to the second.
\<close>

datatype task =
    UpdateUserLogin_call string date
  | AddConnectionHistory_call string "(string \<times> json) list" date
  | AddConnectionHistory_update string "json list" date
  | Returned "error + user"

fun task_step :: "(date \<Rightarrow> string) \<Rightarrow> db \<Rightarrow> task \<Rightarrow> task \<times> db" where
  "task_step toISOString d (UpdateUserLogin_call userId now) =
     (case updateUserLogin d userId now of (r, d1) \<Rightarrow> (Returned r, d1))"
| "task_step toISOString d (AddConnectionHistory_call userId connectionData now) =
     (case prisma_user_findUnique_id d userId of
        (Inl e, d1) \<Rightarrow> (Returned (Inl e), d1)
      | (Inr None, d1) \<Rightarrow> (Returned (Inl (Error ''User not found'')), d1)
      | (Inr (Some u), d1) \<Rightarrow>
          let history = (case connectionHistory u of JArr xs \<Rightarrow> xs | _ \<Rightarrow> []);
              updatedHistory =
                slice (- 10) (history @ [with_timestamp connectionData (toISOString now)])
          in (AddConnectionHistory_update userId updatedHistory now, d1))"
| "task_step toISOString d (AddConnectionHistory_update userId updatedHistory now) =
     (case prisma_user_update d userId
             (\<lambda>r. r\<lparr>connectionHistory := JArr updatedHistory\<rparr>) now of
        (r, d1) \<Rightarrow> (Returned r, d1))"
| "task_step toISOString d (Returned r) = (Returned r, d)"

datatype tid = A | B

text \<open>A schedule names the call that takes the next step.\<close>

fun run :: "(date \<Rightarrow> string) \<Rightarrow> tid list \<Rightarrow> db \<times> task \<times> task \<Rightarrow> db \<times> task \<times> task" where
  "run toISOString [] c = c"
| "run toISOString (A # sched) (d, a, b) =
     (case task_step toISOString d a of (a', d1) \<Rightarrow> run toISOString sched (d1, a', b))"
| "run toISOString (B # sched) (d, a, b) =
     (case task_step toISOString d b of (b', d1) \<Rightarrow> run toISOString sched (d1, a, b'))"

subsection \<open>Sample data\<close>

definition iso0 :: "date \<Rightarrow> string" where
  "iso0 t = replicate t (CHR ''t'')"

definition alice :: user where
  "alice = \<lparr>user_id = ''u1'', walletAddress = ''SP123'', createdAt = 0, updatedAt = 0,
            lastLoginAt = None, loginCount = 0, connectionHistory = JArr []\<rparr>"

definition db0 :: db where
  "db0 = \<lparr>users = [alice], nfts = [], collections = [], transactions = [], outage = []\<rparr>"

definition empty_db :: db where
  "empty_db = \<lparr>users = [], nfts = [], collections = [], transactions = [], outage = []\<rparr>"

text \<open>
  Eleven logins, numbered; the connection data of the last brings a
  \<^verbatim>\<open>timestamp\<close> of its own.
\<close>

definition eleven_logins :: "((string \<times> json) list \<times> date) list" where
  "eleven_logins =
     [([(''attempt'', JNum 1)], 1),
      ([(''attempt'', JNum 2)], 2),
      ([(''attempt'', JNum 3)], 3),
      ([(''attempt'', JNum 4)], 4),
      ([(''attempt'', JNum 5)], 5),
      ([(''attempt'', JNum 6)], 6),
      ([(''attempt'', JNum 7)], 7),
      ([(''attempt'', JNum 8)], 8),
      ([(''attempt'', JNum 9)], 9),
      ([(''attempt'', JNum 10)], 10),
      ([(''timestamp'', JStr ''client''), (''attempt'', JNum 11)], 11)]"

definition verify0 :: verify_auth where
  "verify0 req =
     (if authorization req = Some ''Bearer u1'' then Inr (Some \<lparr>auth_userId = ''u1''\<rparr>)
      else if authorization req = Some ''Bearer u2'' then Inr (Some \<lparr>auth_userId = ''u2''\<rparr>)
      else Inr None)"

definition art :: nft where
  "art = \<lparr>nft_id = ''n1'', nft_name = ''Art'', nft_description = None,
          nft_image = ''https://img/1'', nft_metadata = JObj [], tokenId = None,
          contractAddress = None, isMinted = False, mintedAt = None, nft_createdAt = 1,
          nft_updatedAt = 1, ownerId = ''u1'', collectionId = None\<rparr>"

definition minted_art :: nft where
  "minted_art = art\<lparr>nft_id := ''n2'', isMinted := True, tokenId := Some ''7'',
                    contractAddress := Some ''SPC.nft'', mintedAt := Some 2\<rparr>"

definition db1 :: db where
  "db1 = db0\<lparr>nfts := [art, minted_art]\<rparr>"

definition mint_body :: "string \<Rightarrow> json" where
  "mint_body i = JObj [(''nftId'', JStr i), (''txHash'', JStr ''0xabc''),
                       (''contractAddress'', JStr ''SPC.nft''), (''tokenId'', JStr ''7'')]"

definition mint_request_by :: "string \<Rightarrow> string \<Rightarrow> request" where
  "mint_request_by bearer i =
     \<lparr>search_public = None, json_body = Some (mint_body i), authorization = Some bearer\<rparr>"

definition anonymous :: request where
  "anonymous = \<lparr>search_public = None, json_body = Some (mint_body ''n1''), authorization = None\<rparr>"

section \<open>Basic facts\<close>

lemma slice_10: "slice (- 10) xs = last_n 10 xs"
  by (auto simp: slice_def last_n_def Let_def max_def nat_diff_distrib')

lemma length_last_n: "length (last_n k xs) \<le> k"
  by (simp add: last_n_def)

lemma last_n_last_n_append: "last_n k (last_n k xs @ ys) = last_n k (xs @ ys)"
proof -
  have "length xs + length ys - (length xs - k + k) + (length xs - k)
          = length xs + length ys - k"
    by arith
  then show ?thesis
    by (simp add: last_n_def)
qed

lemma storage_call_after:
  "storage_call d = (failing, d1) \<Longrightarrow> d1 = d\<lparr>outage := tl (outage d)\<rparr>"
  by (cases "outage d") (auto simp: storage_call_def)

lemma storage_call_ok:
  "calls_ok (Suc n) d \<Longrightarrow> storage_call d = (False, after_calls 1 d)"
  by (cases "outage d") (auto simp: calls_ok_def storage_call_def after_calls_def)

lemma calls_ok_after:
  "calls_ok (Suc n) d \<Longrightarrow> calls_ok n (after_calls 1 d)"
  by (cases "outage d") (auto simp: calls_ok_def after_calls_def)

lemma after_calls_fields [simp]:
  "users (after_calls n d) = users d"
  "nfts (after_calls n d) = nfts d"
  "collections (after_calls n d) = collections d"
  "transactions (after_calls n d) = transactions d"
  "outage (after_calls n d) = drop n (outage d)"
  by (simp_all add: after_calls_def)

lemma after_calls_add: "after_calls m (after_calls n d) = after_calls (n + m) d"
  by (simp add: after_calls_def add.commute)

lemma find_SomeD: "find P xs = Some x \<Longrightarrow> P x"
  by (induction xs) (auto split: if_splits)

lemma find_update_where:
  "find P xs = Some x \<Longrightarrow> P y \<Longrightarrow> find P (update_where P y xs) = Some y"
  by (induction xs) auto

lemma length_update_where [simp]: "length (update_where P y xs) = length xs"
  by (induction xs) auto

lemma update_where_absent: "find P xs = None \<Longrightarrow> update_where P y xs = xs"
  by (induction xs) (auto split: if_splits)

lemma new_object_id_fresh: "new_object_id ids \<notin> set ids"
proof -
  have "length i \<le> foldr max (map length ids) 0" if "i \<in> set ids" for i
    using that by (induction ids) auto
  then show ?thesis
    by (fastforce simp: new_object_id_def)
qed

section \<open>What the user functions store\<close>

lemma prisma_user_update_ok:
  assumes "find (\<lambda>u. user_id u = i) (users d) = Some u" and "calls_ok (Suc n) d"
  shows "prisma_user_update d i patch now =
           (Inr ((patch u)\<lparr>updatedAt := now\<rparr>),
            (after_calls 1 d)\<lparr>users := update_where (\<lambda>r. user_id r = i)
                                          ((patch u)\<lparr>updatedAt := now\<rparr>) (users d)\<rparr>)"
  using assms storage_call_ok [of n d]
  by (simp add: prisma_user_update_def Let_def)

lemma prisma_user_update_Inr:
  assumes "prisma_user_update d i patch now = (Inr u', d')"
  shows "\<exists>u. find (\<lambda>u. user_id u = i) (users d) = Some u \<and> u' = (patch u)\<lparr>updatedAt := now\<rparr>
           \<and> users d' = update_where (\<lambda>r. user_id r = i) u' (users d)"
  using assms
  by (auto simp: prisma_user_update_def Let_def
      split: prod.splits bool.splits option.splits dest!: storage_call_after)

lemma prisma_user_update_Inl:
  assumes "prisma_user_update d i patch now = (Inl e, d')"
  shows "users d' = users d"
  using assms
  by (auto simp: prisma_user_update_def Let_def
      split: prod.splits bool.splits option.splits dest!: storage_call_after)

lemma prisma_user_findUnique_id_result:
  assumes "prisma_user_findUnique_id d i = (r, d')"
  shows "users d' = users d \<and> (r = Inl StorageFailure \<or> r = Inr (find (\<lambda>u. user_id u = i) (users d)))"
  using assms
  by (auto simp: prisma_user_findUnique_id_def split: prod.splits bool.splits
      dest!: storage_call_after)

lemma addConnectionHistory_ok:
  assumes "find (\<lambda>u. user_id u = userId) (users d) = Some u" and "calls_ok 2 d"
  shows "addConnectionHistory toISOString d userId connectionData now =
     (let u' = u\<lparr>connectionHistory := JArr (last_n 10
                  (history_of u @ [with_timestamp connectionData (toISOString now)])),
                updatedAt := now\<rparr>
      in (Inr u', (after_calls 2 d)\<lparr>users := update_where (\<lambda>r. user_id r = userId) u' (users d)\<rparr>))"
proof -
  have c2: "calls_ok (Suc 1) d" using assms(2) by (simp add: numeral_2_eq_2)
  have f1: "storage_call d = (False, after_calls 1 d)" by (rule storage_call_ok [OF c2])
  have c1: "calls_ok (Suc 0) (after_calls 1 d)" using calls_ok_after [OF c2] by simp
  have "find (\<lambda>u. user_id u = userId) (users (after_calls 1 d)) = Some u" using assms(1) by simp
  from prisma_user_update_ok [OF this c1] f1 assms(1) show ?thesis
    by (simp add: addConnectionHistory_def prisma_user_findUnique_id_def Let_def after_calls_add
        numeral_2_eq_2 slice_10 history_of_def)
qed

lemma addConnectionHistory_Inr:
  assumes "addConnectionHistory toISOString d userId connectionData now = (Inr u', d')"
    and "find (\<lambda>u. user_id u = userId) (users d) = Some u"
  shows "connectionHistory u' =
           JArr (last_n 10 (history_of u @ [with_timestamp connectionData (toISOString now)]))
         \<and> find (\<lambda>r. user_id r = userId) (users d') = Some u'"
proof -
  obtain r d1 where f: "prisma_user_findUnique_id d userId = (r, d1)"
    by (cases "prisma_user_findUnique_id d userId")
  from prisma_user_findUnique_id_result [OF f] assms f
  have r: "r = Inr (Some u)" and u1: "users d1 = users d"
    by (auto simp: addConnectionHistory_def)
  let ?h = "slice (- 10) (history_of u @ [with_timestamp connectionData (toISOString now)])"
  have upd: "prisma_user_update d1 userId (\<lambda>r. r\<lparr>connectionHistory := JArr ?h\<rparr>) now = (Inr u', d')"
    using assms(1) f r by (simp add: addConnectionHistory_def Let_def history_of_def)
  from prisma_user_update_Inr [OF upd] u1 assms(2)
  have u': "u' = u\<lparr>connectionHistory := JArr ?h, updatedAt := now\<rparr>"
    and us: "users d' = update_where (\<lambda>r. user_id r = userId) u' (users d)"
    by auto
  have "user_id u' = userId" using find_SomeD [OF assms(2)] u' by simp
  with find_update_where [OF assms(2), of u'] us u' show ?thesis
    by (simp add: slice_10)
qed

lemma addConnectionHistory_Inl:
  assumes "addConnectionHistory toISOString d userId connectionData now = (Inl e, d')"
  shows "users d' = users d"
proof -
  obtain r d1 where f: "prisma_user_findUnique_id d userId = (r, d1)"
    by (cases "prisma_user_findUnique_id d userId")
  from prisma_user_findUnique_id_result [OF f] have u1: "users d1 = users d" by simp
  show ?thesis
    using assms f u1
    by (auto simp: addConnectionHistory_def Let_def
        split: sum.splits option.splits dest: prisma_user_update_Inl)
qed

lemma record_connections_history:
  assumes "find (\<lambda>u. user_id u = userId) (users d) = Some u"
    and "fst (record_connections toISOString d userId logins) = Inr ()"
  shows "\<exists>u'. find (\<lambda>r. user_id r = userId)
                 (users (snd (record_connections toISOString d userId logins))) = Some u'
           \<and> connectionHistory u' =
               (if logins = [] then connectionHistory u
                else JArr (last_n 10 (history_of u @ map (entry_of toISOString) logins)))"
  using assms
proof (induction logins arbitrary: d u)
  case Nil
  then show ?case by simp
next
  case (Cons login rest)
  obtain r d1 where a: "addConnectionHistory toISOString d userId (fst login) (snd login) = (r, d1)"
    by (cases "addConnectionHistory toISOString d userId (fst login) (snd login)")
  with Cons.prems(2) obtain u1 where r: "r = Inr u1"
    by (cases r) auto
  from addConnectionHistory_Inr [OF a [unfolded r] Cons.prems(1)]
  have h1: "connectionHistory u1 = JArr (last_n 10 (history_of u @ [entry_of toISOString login]))"
    and f1: "find (\<lambda>r. user_id r = userId) (users d1) = Some u1"
    by (simp_all add: entry_of_def)
  have run: "record_connections toISOString d userId (login # rest)
               = record_connections toISOString d1 userId rest"
    using a r by simp
  from Cons.prems(2) run have ok: "fst (record_connections toISOString d1 userId rest) = Inr ()"
    by simp
  from Cons.IH [OF f1 ok] obtain u' where
    f': "find (\<lambda>r. user_id r = userId)
           (users (snd (record_connections toISOString d1 userId rest))) = Some u'"
    and h': "connectionHistory u' =
               (if rest = [] then connectionHistory u1
                else JArr (last_n 10 (history_of u1 @ map (entry_of toISOString) rest)))"
    by blast
  have "connectionHistory u' =
          JArr (last_n 10 (history_of u @ map (entry_of toISOString) (login # rest)))"
    using h' h1 last_n_last_n_append [of 10 "history_of u @ [entry_of toISOString login]"
        "map (entry_of toISOString) rest"]
    by (simp add: history_of_def)
  with f' run show ?case by auto
qed

section \<open>The bounded connection history\<close>

text \<open>
  Claim C1. Each \<^verbatim>\<open>addConnectionHistory\<close> call appends one entry to the end of the
  stored history and then keeps the last 10 entries. The entry is an object with the
  properties of the connection data, in their order and with their values, and with
  \<^verbatim>\<open>timestamp\<close> set to the ISO string of the time of the call (in place of a
  \<^verbatim>\<open>timestamp\<close> the data had, or else as the last property). So after any non-empty
  run of successful calls for a user the stored history is the last 10 entries of the old
  history followed by the new entries in the order of the calls; it never has more than 10
  entries; and after 11 calls on an empty history it is exactly the entries of calls 2 to
  11, in that order, the first gone.
\<close>

theorem connectionHistory_keeps_last_10:
  assumes "find (\<lambda>u. user_id u = userId) (users d) = Some u"
    and "fst (record_connections toISOString d userId logins) = Inr ()"
    and "logins \<noteq> []"
  shows "\<exists>u'. find (\<lambda>r. user_id r = userId)
                 (users (snd (record_connections toISOString d userId logins))) = Some u'
           \<and> connectionHistory u' =
               JArr (last_n 10 (history_of u @ map (entry_of toISOString) logins))
           \<and> length (history_of u') \<le> 10
           \<and> (history_of u = [] \<and> length logins = 11 \<longrightarrow>
                connectionHistory u' = JArr (map (entry_of toISOString) (tl logins)))
           \<and> (\<forall>login \<in> set logins. \<exists>ps.
                entry_of toISOString login = JObj ps
                \<and> map_of ps ''timestamp'' = Some (JStr (toISOString (snd login)))
                \<and> (\<forall>k. k \<noteq> ''timestamp'' \<longrightarrow> map_of ps k = map_of (fst login) k)
                \<and> map fst ps =
                    (if ''timestamp'' \<in> set (map fst (fst login)) then map fst (fst login)
                     else map fst (fst login) @ [''timestamp'']))"
proof -
  from record_connections_history [OF assms(1,2)] assms(3) obtain u' where
    f: "find (\<lambda>r. user_id r = userId)
          (users (snd (record_connections toISOString d userId logins))) = Some u'"
    and h: "connectionHistory u' =
              JArr (last_n 10 (history_of u @ map (entry_of toISOString) logins))"
    by auto
  have len: "length (history_of u') \<le> 10"
    using h length_last_n [of 10] by (simp add: history_of_def)
  have eleven: "last_n 10 (history_of u @ map (entry_of toISOString) logins)
          = map (entry_of toISOString) (tl logins)"
    if "history_of u = []" and "length logins = 11"
    using that by (cases logins) (simp_all add: last_n_def)
  have entries: "\<forall>login \<in> set logins. \<exists>ps.
                entry_of toISOString login = JObj ps
                \<and> map_of ps ''timestamp'' = Some (JStr (toISOString (snd login)))
                \<and> (\<forall>k. k \<noteq> ''timestamp'' \<longrightarrow> map_of ps k = map_of (fst login) k)
                \<and> map fst ps =
                    (if ''timestamp'' \<in> set (map fst (fst login)) then map fst (fst login)
                     else map fst (fst login) @ [''timestamp''])"
    by (simp add: entry_of_def with_timestamp_def update_conv' update_keys)
  from f h len eleven entries show ?thesis
    by (intro exI [of _ u']) simp
qed

theorem connectionHistory_keeps_last_10_witness:
  "find (\<lambda>u. user_id u = ''u1'') (users db0) = Some alice
   \<and> fst (record_connections iso0 db0 ''u1'' eleven_logins) = Inr ()
   \<and> eleven_logins \<noteq> []
   \<and> history_of alice = [] \<and> length eleven_logins = 11
   \<and> ([(''timestamp'', JStr ''client''), (''attempt'', JNum 11)], 11) \<in> set eleven_logins
   \<and> (\<exists>u'. find (\<lambda>r. user_id r = ''u1'')
               (users (snd (record_connections iso0 db0 ''u1'' eleven_logins))) = Some u'
          \<and> connectionHistory u' =
              JArr [JObj [(''attempt'', JNum 2), (''timestamp'', JStr ''tt'')],
              JObj [(''attempt'', JNum 3), (''timestamp'', JStr ''ttt'')],
              JObj [(''attempt'', JNum 4), (''timestamp'', JStr ''tttt'')],
              JObj [(''attempt'', JNum 5), (''timestamp'', JStr ''ttttt'')],
              JObj [(''attempt'', JNum 6), (''timestamp'', JStr ''tttttt'')],
              JObj [(''attempt'', JNum 7), (''timestamp'', JStr ''ttttttt'')],
              JObj [(''attempt'', JNum 8), (''timestamp'', JStr ''tttttttt'')],
              JObj [(''attempt'', JNum 9), (''timestamp'', JStr ''ttttttttt'')],
              JObj [(''attempt'', JNum 10), (''timestamp'', JStr ''tttttttttt'')],
              JObj [(''timestamp'', JStr ''ttttttttttt''), (''attempt'', JNum 11)]]
          \<and> length (history_of u') \<le> 10)"
proof -
  have h1: "find (\<lambda>u. user_id u = ''u1'') (users db0) = Some alice"
    by (simp add: db0_def alice_def)
  have h2: "fst (record_connections iso0 db0 ''u1'' eleven_logins) = Inr ()"
    by code_simp
  have h3: "eleven_logins \<noteq> []"
    by (simp add: eleven_logins_def)
  have h4: "history_of alice = [] \<and> length eleven_logins = 11"
    by (simp add: history_of_def alice_def eleven_logins_def)
  have h5: "([(''timestamp'', JStr ''client''), (''attempt'', JNum 11)], 11) \<in> set eleven_logins"
    by (simp add: eleven_logins_def)
  have lit: "map (entry_of iso0) (tl eleven_logins) =
             [JObj [(''attempt'', JNum 2), (''timestamp'', JStr ''tt'')],
              JObj [(''attempt'', JNum 3), (''timestamp'', JStr ''ttt'')],
              JObj [(''attempt'', JNum 4), (''timestamp'', JStr ''tttt'')],
              JObj [(''attempt'', JNum 5), (''timestamp'', JStr ''ttttt'')],
              JObj [(''attempt'', JNum 6), (''timestamp'', JStr ''tttttt'')],
              JObj [(''attempt'', JNum 7), (''timestamp'', JStr ''ttttttt'')],
              JObj [(''attempt'', JNum 8), (''timestamp'', JStr ''tttttttt'')],
              JObj [(''attempt'', JNum 9), (''timestamp'', JStr ''ttttttttt'')],
              JObj [(''attempt'', JNum 10), (''timestamp'', JStr ''tttttttttt'')],
              JObj [(''timestamp'', JStr ''ttttttttttt''), (''attempt'', JNum 11)]]"
    by code_simp
  from connectionHistory_keeps_last_10 [OF h1 h2 h3] h4 lit obtain u' where
    "find (\<lambda>r. user_id r = ''u1'')
       (users (snd (record_connections iso0 db0 ''u1'' eleven_logins))) = Some u'"
    "connectionHistory u' =
       JArr [JObj [(''attempt'', JNum 2), (''timestamp'', JStr ''tt'')],
              JObj [(''attempt'', JNum 3), (''timestamp'', JStr ''ttt'')],
              JObj [(''attempt'', JNum 4), (''timestamp'', JStr ''tttt'')],
              JObj [(''attempt'', JNum 5), (''timestamp'', JStr ''ttttt'')],
              JObj [(''attempt'', JNum 6), (''timestamp'', JStr ''tttttt'')],
              JObj [(''attempt'', JNum 7), (''timestamp'', JStr ''ttttttt'')],
              JObj [(''attempt'', JNum 8), (''timestamp'', JStr ''tttttttt'')],
              JObj [(''attempt'', JNum 9), (''timestamp'', JStr ''ttttttttt'')],
              JObj [(''attempt'', JNum 10), (''timestamp'', JStr ''tttttttttt'')],
              JObj [(''timestamp'', JStr ''ttttttttttt''), (''attempt'', JNum 11)]]"
    "length (history_of u') \<le> 10"
    by auto
  with h1 h2 h3 h4 h5 show ?thesis
    by blast
qed

text \<open>
  Claim C9. When no user has the id and the read goes through,
  \<^verbatim>\<open>addConnectionHistory\<close> throws \<^verbatim>\<open>Error("User not found")\<close>; the read is the
  only storage call it has made, and every table is as before.
\<close>

theorem addConnectionHistory_user_not_found:
  assumes "find (\<lambda>u. user_id u = userId) (users d) = None"
    and "calls_ok 1 d"
  shows "addConnectionHistory toISOString d userId connectionData now
           = (Inl (Error ''User not found''), d\<lparr>outage := drop 1 (outage d)\<rparr>)"
  using assms storage_call_ok [of 0 d]
  by (simp add: addConnectionHistory_def prisma_user_findUnique_id_def after_calls_def)

theorem addConnectionHistory_user_not_found_witness:
  "find (\<lambda>u. user_id u = ''nobody'') (users db0) = None
   \<and> calls_ok 1 db0
   \<and> addConnectionHistory iso0 db0 ''nobody'' [(''ip'', JStr ''10.0.0.1'')] 7
       = (Inl (Error ''User not found''), db0)"
proof -
  have h1: "find (\<lambda>u. user_id u = ''nobody'') (users db0) = None"
    by (simp add: db0_def alice_def)
  have h2: "calls_ok 1 db0"
    by (simp add: calls_ok_def db0_def)
  from addConnectionHistory_user_not_found [OF h1 h2, of iso0 "[(''ip'', JStr ''10.0.0.1'')]" 7]
    h1 h2 show ?thesis
    by (simp add: db0_def)
qed

text \<open>
  Claim C10. When the stored \<^verbatim>\<open>connectionHistory\<close> of the user is not an array and
  the two storage calls go through, \<^verbatim>\<open>addConnectionHistory\<close> returns the updated
  user (it does not throw), and the history it returns and stores is the array of the one
  new entry.
\<close>

theorem addConnectionHistory_non_array_history:
  assumes "find (\<lambda>u. user_id u = userId) (users d) = Some u"
    and "\<not> isArray (connectionHistory u)"
    and "calls_ok 2 d"
  shows "\<exists>u' d'. addConnectionHistory toISOString d userId connectionData now = (Inr u', d')
           \<and> connectionHistory u' = JArr [with_timestamp connectionData (toISOString now)]
           \<and> find (\<lambda>r. user_id r = userId) (users d') = Some u'"
proof -
  have h: "history_of u = []"
    using assms(2) by (cases "connectionHistory u") (simp_all add: history_of_def)
  have "user_id u = userId" using find_SomeD [OF assms(1)] .
  then show ?thesis
    using find_update_where [OF assms(1)]
    by (simp add: addConnectionHistory_ok [OF assms(1,3)] h Let_def last_n_def)
qed

theorem addConnectionHistory_non_array_history_witness:
  "find (\<lambda>u. user_id u = ''u1'')
     (users (db0\<lparr>users := [alice\<lparr>connectionHistory := JStr ''corrupt''\<rparr>]\<rparr>))
     = Some (alice\<lparr>connectionHistory := JStr ''corrupt''\<rparr>)
   \<and> \<not> isArray (connectionHistory (alice\<lparr>connectionHistory := JStr ''corrupt''\<rparr>))
   \<and> calls_ok 2 (db0\<lparr>users := [alice\<lparr>connectionHistory := JStr ''corrupt''\<rparr>]\<rparr>)
   \<and> (\<exists>u' d'. addConnectionHistory iso0
                  (db0\<lparr>users := [alice\<lparr>connectionHistory := JStr ''corrupt''\<rparr>]\<rparr>)
                  ''u1'' [(''ip'', JStr ''10.0.0.1'')] 7 = (Inr u', d')
          \<and> connectionHistory u' = JArr [with_timestamp [(''ip'', JStr ''10.0.0.1'')] (iso0 7)])"
proof -
  let ?u = "alice\<lparr>connectionHistory := JStr ''corrupt''\<rparr>"
  let ?d = "db0\<lparr>users := [?u]\<rparr>"
  have h1: "find (\<lambda>u. user_id u = ''u1'') (users ?d) = Some ?u"
    by (simp add: alice_def)
  have h2: "\<not> isArray (connectionHistory ?u)"
    by simp
  have h3: "calls_ok 2 ?d"
    by (simp add: calls_ok_def db0_def)
  from addConnectionHistory_non_array_history
         [OF h1 h2 h3, of iso0 "[(''ip'', JStr ''10.0.0.1'')]" 7] h1 h2 h3
  show ?thesis
    by blast
qed

section \<open>Creating a user and counting logins\<close>

lemma find_append_new:
  "\<forall>x \<in> set xs. \<not> P x \<Longrightarrow> P y \<Longrightarrow> find P (xs @ [y]) = Some y"
  by (induction xs) auto

lemma createUser_Inr:
  assumes "createUser d a now = (Inr su, d1)"
  shows "\<exists>u. users d1 = users d @ [u]
           \<and> u = \<lparr>user_id = new_object_id (map user_id (users d)), walletAddress = a,
                   createdAt = now, updatedAt = now, lastLoginAt = None, loginCount = 0,
                   connectionHistory = JArr []\<rparr>
           \<and> su = \<lparr>csu_id = user_id u, csu_walletAddress = a\<rparr>
           \<and> (\<forall>x \<in> set (users d). walletAddress x \<noteq> a)"
  using assms
  by (auto simp: createUser_def prisma_user_create_def Let_def
      split: prod.splits bool.splits if_splits dest!: storage_call_after)

lemma createUser_Inl:
  assumes "createUser d a now = (Inl e, d1)"
  shows "users d1 = users d"
  using assms
  by (auto simp: createUser_def prisma_user_create_def Let_def
      split: prod.splits bool.splits if_splits dest!: storage_call_after)

lemma updateUserLogin_Inr:
  assumes "updateUserLogin d userId now = (Inr u', d')"
  shows "\<exists>u. find (\<lambda>u. user_id u = userId) (users d) = Some u
           \<and> u' = u\<lparr>lastLoginAt := Some now, loginCount := loginCount u + 1, updatedAt := now\<rparr>
           \<and> users d' = update_where (\<lambda>r. user_id r = userId) u' (users d)"
  using prisma_user_update_Inr [OF assms [unfolded updateUserLogin_def]]
  by auto

lemma updateUserLogin_Inl:
  assumes "updateUserLogin d userId now = (Inl e, d')"
  shows "users d' = users d"
  using prisma_user_update_Inl [OF assms [unfolded updateUserLogin_def]] .

text \<open>
  Claim C8. A \<^verbatim>\<open>createUser\<close> call that returns has appended one record to the
  user table, with the wallet address given, the empty array as
  \<^verbatim>\<open>connectionHistory\<close>, \<^verbatim>\<open>loginCount\<close> 0 and no \<^verbatim>\<open>lastLoginAt\<close>; what it
  returns is the pair of the record's id and wallet address. The first
  \<^verbatim>\<open>updateUserLogin\<close> that returns for this id then returns and stores the record with
  \<^verbatim>\<open>loginCount\<close> 1.
\<close>

theorem createUser_fresh_record:
  assumes "createUser d a now = (Inr su, d1)"
  shows "\<exists>u. users d1 = users d @ [u]
           \<and> walletAddress u = a \<and> connectionHistory u = JArr [] \<and> loginCount u = 0
           \<and> lastLoginAt u = None
           \<and> su = \<lparr>csu_id = user_id u, csu_walletAddress = walletAddress u\<rparr>
           \<and> (\<forall>now' u' d2. updateUserLogin d1 (csu_id su) now' = (Inr u', d2) \<longrightarrow>
                 loginCount u' = 1
                 \<and> find (\<lambda>r. user_id r = csu_id su) (users d2) = Some u')"
proof -
  from createUser_Inr [OF assms] obtain u where
    us: "users d1 = users d @ [u]"
    and u: "u = \<lparr>user_id = new_object_id (map user_id (users d)), walletAddress = a,
                 createdAt = now, updatedAt = now, lastLoginAt = None, loginCount = 0,
                 connectionHistory = JArr []\<rparr>"
    and su: "su = \<lparr>csu_id = user_id u, csu_walletAddress = a\<rparr>"
    by blast
  have fresh: "\<forall>x \<in> set (users d). \<not> user_id x = user_id u"
    using new_object_id_fresh [of "map user_id (users d)"] u by (auto simp: image_iff)
  have found: "find (\<lambda>r. user_id r = user_id u) (users d1) = Some u"
    using find_append_new [OF fresh] us by simp
  have "loginCount u' = 1 \<and> find (\<lambda>r. user_id r = csu_id su) (users d2) = Some u'"
    if "updateUserLogin d1 (csu_id su) now' = (Inr u', d2)" for now' u' d2
  proof -
    from updateUserLogin_Inr [OF that] found su
    have u': "u' = u\<lparr>lastLoginAt := Some now', loginCount := loginCount u + 1, updatedAt := now'\<rparr>"
      and us2: "users d2 = update_where (\<lambda>r. user_id r = user_id u) u' (users d1)"
      by auto
    from find_update_where [OF found, of u'] u' us2 u su show ?thesis
      by simp
  qed
  with us u su show ?thesis
    by auto
qed

theorem createUser_fresh_record_witness:
  "createUser empty_db ''SP123'' 5
     = (Inr \<lparr>csu_id = ''0'', csu_walletAddress = ''SP123''\<rparr>,
        empty_db\<lparr>users := [alice\<lparr>user_id := ''0'', createdAt := 5, updatedAt := 5\<rparr>]\<rparr>)
   \<and> (\<exists>u'. fst (updateUserLogin
                    (empty_db\<lparr>users := [alice\<lparr>user_id := ''0'', createdAt := 5, updatedAt := 5\<rparr>]\<rparr>)
                    ''0'' 6) = Inr u'
          \<and> loginCount u' = 1)"
proof -
  let ?d1 = "empty_db\<lparr>users := [alice\<lparr>user_id := ''0'', createdAt := 5, updatedAt := 5\<rparr>]\<rparr>"
  have h: "createUser empty_db ''SP123'' 5
             = (Inr \<lparr>csu_id = ''0'', csu_walletAddress = ''SP123''\<rparr>, ?d1)"
    by (simp add: createUser_def prisma_user_create_def storage_call_def empty_db_def
        new_object_id_def alice_def Let_def)
  obtain u' d2 where r: "updateUserLogin ?d1 ''0'' 6 = (Inr u', d2)"
    by (simp add: updateUserLogin_def prisma_user_update_def storage_call_def empty_db_def
        alice_def Let_def)
  from createUser_fresh_record [OF h] r have "loginCount u' = 1"
    by auto
  with h r show ?thesis
    by auto
qed

section \<open>Login counts never go down\<close>

lemma counts_kept_refl: "counts_kept us us"
  by (simp add: counts_kept_def list_all2_same)

lemma counts_kept_trans:
  assumes "counts_kept us vs" and "counts_kept vs ws"
  shows "counts_kept us ws"
proof -
  from assms(1) have l1: "length us \<le> length vs"
    by (auto simp: counts_kept_def dest: list_all2_lengthD)
  from assms(2) have l2: "length vs \<le> length ws"
    by (auto simp: counts_kept_def dest: list_all2_lengthD)
  have "user_id (ws ! i) = user_id (us ! i) \<and> loginCount (us ! i) \<le> loginCount (ws ! i)"
    if "i < length us" for i
  proof -
    from that l1 have iv: "i < length vs" by simp
    from assms(1) that l1 have "user_id (vs ! i) = user_id (us ! i)
        \<and> loginCount (us ! i) \<le> loginCount (vs ! i)"
      by (auto simp: counts_kept_def list_all2_conv_all_nth)
    moreover from assms(2) iv l2 have "user_id (ws ! i) = user_id (vs ! i)
        \<and> loginCount (vs ! i) \<le> loginCount (ws ! i)"
      by (auto simp: counts_kept_def list_all2_conv_all_nth)
    ultimately show ?thesis by simp
  qed
  with l1 l2 show ?thesis
    by (auto simp: counts_kept_def list_all2_conv_all_nth)
qed

lemma counts_kept_append: "counts_kept us (us @ vs)"
  by (simp add: counts_kept_def list_all2_same)

lemma counts_kept_update_where:
  assumes "find P us = Some u" and "user_id u' = user_id u" and "loginCount u \<le> loginCount u'"
  shows "counts_kept us (update_where P u' us)"
  using assms(1)
proof (induction us)
  case Nil
  then show ?case by simp
next
  case (Cons x xs)
  show ?case
  proof (cases "P x")
    case True
    with Cons.prems assms(2,3) show ?thesis
      by (simp add: counts_kept_def list_all2_same)
  next
    case False
    with Cons show ?thesis
      by (simp add: counts_kept_def)
  qed
qed

text \<open>
  What a repository call can do to the user table: nothing, append a user with a wallet
  address that was not there, or replace the user of one id by a record with the same id
  and wallet address and a login count that is no smaller.
\<close>

lemma update_shape:
  assumes "find (\<lambda>r. user_id r = i) (users d) = Some u"
    and "us' = update_where (\<lambda>r. user_id r = i) u' (users d)"
    and "user_id u' = user_id u" and "walletAddress u' = walletAddress u"
    and "loginCount u \<le> loginCount u'"
  shows "\<exists>j v v'. find (\<lambda>r. user_id r = j) (users d) = Some v
           \<and> us' = update_where (\<lambda>r. user_id r = j) v' (users d)
           \<and> user_id v' = user_id v \<and> walletAddress v' = walletAddress v
           \<and> loginCount v \<le> loginCount v'"
  using assms by blast

lemma createUser_users:
  "users (snd (createUser d a now)) = users d
   \<or> (\<exists>u. users (snd (createUser d a now)) = users d @ [u]
          \<and> (\<forall>x \<in> set (users d). walletAddress x \<noteq> walletAddress u))"
proof (cases "createUser d a now")
  case (Pair r d1)
  then show ?thesis
    using createUser_Inr [of d a now _ d1] createUser_Inl [of d a now _ d1]
    by (cases r) auto
qed

lemma updateUserLogin_users:
  "users (snd (updateUserLogin d i now)) = users d
   \<or> (\<exists>j v v'. find (\<lambda>r. user_id r = j) (users d) = Some v
          \<and> users (snd (updateUserLogin d i now)) = update_where (\<lambda>r. user_id r = j) v' (users d)
          \<and> user_id v' = user_id v \<and> walletAddress v' = walletAddress v
          \<and> loginCount v \<le> loginCount v')"
proof (cases "updateUserLogin d i now")
  case (Pair r d1)
  show ?thesis
  proof (cases r)
    case (Inl e)
    with Pair updateUserLogin_Inl [of d i now e d1] show ?thesis
      by simp
  next
    case (Inr u')
    with Pair updateUserLogin_Inr [of d i now u' d1] obtain u where
      "find (\<lambda>u. user_id u = i) (users d) = Some u"
      "u' = u\<lparr>lastLoginAt := Some now, loginCount := loginCount u + 1, updatedAt := now\<rparr>"
      "users d1 = update_where (\<lambda>r. user_id r = i) u' (users d)"
      by auto
    with Pair update_shape [of i d u "users d1" u'] show ?thesis
      by simp
  qed
qed

lemma addConnectionHistory_users:
  "users (snd (addConnectionHistory toISOString d i c now)) = users d
   \<or> (\<exists>j v v'. find (\<lambda>r. user_id r = j) (users d) = Some v
          \<and> users (snd (addConnectionHistory toISOString d i c now))
              = update_where (\<lambda>r. user_id r = j) v' (users d)
          \<and> user_id v' = user_id v \<and> walletAddress v' = walletAddress v
          \<and> loginCount v \<le> loginCount v')"
proof (cases "addConnectionHistory toISOString d i c now")
  case (Pair r d1)
  show ?thesis
  proof (cases r)
    case (Inl e)
    with Pair addConnectionHistory_Inl [of toISOString d i c now e d1] show ?thesis
      by simp
  next
    case (Inr u')
    obtain r0 d0 where f: "prisma_user_findUnique_id d i = (r0, d0)"
      by (cases "prisma_user_findUnique_id d i")
    from prisma_user_findUnique_id_result [OF f] have u0: "users d0 = users d" by simp
    from Pair Inr f obtain h where
      upd: "prisma_user_update d0 i (\<lambda>r. r\<lparr>connectionHistory := JArr h\<rparr>) now = (Inr u', d1)"
      by (auto simp: addConnectionHistory_def Let_def split: sum.splits option.splits)
    from prisma_user_update_Inr [OF upd] u0 obtain u where
      "find (\<lambda>u. user_id u = i) (users d) = Some u"
      "u' = u\<lparr>connectionHistory := JArr h, updatedAt := now\<rparr>"
      "users d1 = update_where (\<lambda>r. user_id r = i) u' (users d)"
      by auto
    with Pair update_shape [of i d u "users d1" u'] show ?thesis
      by simp
  qed
qed

lemma perform_users:
  "users (perform toISOString c d) = users d
   \<or> (\<exists>u. users (perform toISOString c d) = users d @ [u]
          \<and> (\<forall>x \<in> set (users d). walletAddress x \<noteq> walletAddress u))
   \<or> (\<exists>j v v'. find (\<lambda>r. user_id r = j) (users d) = Some v
          \<and> users (perform toISOString c d) = update_where (\<lambda>r. user_id r = j) v' (users d)
          \<and> user_id v' = user_id v \<and> walletAddress v' = walletAddress v
          \<and> loginCount v \<le> loginCount v')"
proof (cases c)
  case (CreateUser a now)
  with createUser_users [of d a now] show ?thesis by auto
next
  case (UpdateUserLogin i now)
  with updateUserLogin_users [of d i now] show ?thesis by auto
next
  case (AddConnectionHistory i cd now)
  with addConnectionHistory_users [of toISOString d i cd now] show ?thesis by auto
next
  case (FindUserByWalletAddress a)
  then have "users (perform toISOString c d) = users d"
    by (auto simp: findUserByWalletAddress_def prisma_user_findUnique_walletAddress_def
        split: prod.splits bool.splits option.splits sum.splits dest!: storage_call_after)
  then show ?thesis by simp
next
  case (GetUserById i)
  then have "users (perform toISOString c d) = users d"
    by (auto simp: getUserById_def prisma_user_findUnique_id_def
        split: prod.splits bool.splits dest!: storage_call_after)
  then show ?thesis by simp
next
  case (CreateNFT dat now)
  then have "users (perform toISOString c d) = users d"
    by (auto simp: createNFT_def Let_def split: prod.splits bool.splits
        dest!: storage_call_after)
  then show ?thesis by simp
next
  case (GetNFTsByOwner i)
  then have "users (perform toISOString c d) = users d"
    by (auto simp: getNFTsByOwner_def split: prod.splits bool.splits
        dest!: storage_call_after)
  then show ?thesis by simp
next
  case (GetNFTById i)
  then have "users (perform toISOString c d) = users d"
    by (auto simp: getNFTById_def split: prod.splits bool.splits option.splits
        dest!: storage_call_after)
  then show ?thesis by simp
next
  case (UpdateNFTMintStatus i t ca now)
  then have "users (perform toISOString c d) = users d"
    by (auto simp: updateNFTMintStatus_def Let_def
        split: prod.splits bool.splits option.splits dest!: storage_call_after)
  then show ?thesis by simp
next
  case (CreateCollection dat now)
  then have "users (perform toISOString c d) = users d"
    by (auto simp: createCollection_def Let_def split: prod.splits bool.splits
        dest!: storage_call_after)
  then show ?thesis by simp
next
  case (GetCollectionsByOwner i)
  then have "users (perform toISOString c d) = users d"
    by (auto simp: getCollectionsByOwner_def split: prod.splits bool.splits
        dest!: storage_call_after)
  then show ?thesis by simp
next
  case GetPublicCollections
  then have "users (perform toISOString c d) = users d"
    by (auto simp: getPublicCollections_def split: prod.splits bool.splits
        dest!: storage_call_after)
  then show ?thesis by simp
next
  case (CreateTransaction dat now)
  then have "users (perform toISOString c d) = users d"
    by (auto simp: createTransaction_def Let_def split: prod.splits bool.splits if_splits
        dest!: storage_call_after)
  then show ?thesis by simp
next
  case (UpdateTransactionStatus h st b now)
  then have "users (perform toISOString c d) = users d"
    by (auto simp: updateTransactionStatus_def Let_def
        split: prod.splits bool.splits option.splits dest!: storage_call_after)
  then show ?thesis by simp
qed

lemma perform_counts: "counts_kept (users d) (users (perform toISOString c d))"
  using perform_users [of toISOString c d]
  by (auto simp: counts_kept_refl counts_kept_append intro: counts_kept_update_where)

lemma perform_all_counts: "counts_kept (users d) (users (perform_all toISOString calls d))"
proof (induction calls arbitrary: d)
  case Nil
  then show ?case by (simp add: perform_all_def counts_kept_refl)
next
  case (Cons c calls)
  from counts_kept_trans [OF perform_counts [of d toISOString c]
      Cons.IH [of "perform toISOString c d"]]
  show ?case by (simp add: perform_all_def)
qed

text \<open>
  Claim C5. For a user that exists, an \<^verbatim>\<open>updateUserLogin\<close> call whose storage call
  goes through returns and stores the record with \<^verbatim>\<open>loginCount\<close> one higher and
  \<^verbatim>\<open>lastLoginAt\<close> the time of the call, all other users as they were. And over any
  sequence of calls of the repository functions, returning or throwing, every user
  present at the start is still in its place, with a login count no smaller.
\<close>

theorem updateUserLogin_increments:
  assumes "find (\<lambda>u. user_id u = userId) (users d) = Some u"
    and "calls_ok 1 d"
  shows "\<exists>u'. updateUserLogin d userId now
               = (Inr u', (after_calls 1 d)\<lparr>users :=
                              update_where (\<lambda>r. user_id r = userId) u' (users d)\<rparr>)
           \<and> loginCount u' = loginCount u + 1
           \<and> lastLoginAt u' = Some now
           \<and> counts_kept (users d) (users (perform_all toISOString calls d))"
  using prisma_user_update_ok [OF assms(1), of 0] assms(2) perform_all_counts [of d toISOString calls]
  by (simp add: updateUserLogin_def)

theorem updateUserLogin_increments_witness:
  "find (\<lambda>u. user_id u = ''u1'') (users db0) = Some alice
   \<and> calls_ok 1 db0
   \<and> updateUserLogin db0 ''u1'' 9
       = (Inr (alice\<lparr>lastLoginAt := Some 9, loginCount := 1, updatedAt := 9\<rparr>),
          db0\<lparr>users := [alice\<lparr>lastLoginAt := Some 9, loginCount := 1, updatedAt := 9\<rparr>]\<rparr>)
   \<and> counts_kept (users db0)
        (users (perform_all iso0 [UpdateUserLogin ''u1'' 9, CreateUser ''SP9'' 10] db0))"
proof -
  have h1: "find (\<lambda>u. user_id u = ''u1'') (users db0) = Some alice"
    by (simp add: db0_def alice_def)
  have h2: "calls_ok 1 db0"
    by (simp add: calls_ok_def db0_def)
  from updateUserLogin_increments
         [OF h1 h2, of 9 iso0 "[UpdateUserLogin ''u1'' 9, CreateUser ''SP9'' 10]"] h1 h2
  show ?thesis
    by (auto simp: db0_def alice_def after_calls_def updateUserLogin_def
        prisma_user_update_def storage_call_def Let_def)
qed

section \<open>The protected routes\<close>

text \<open>
  Claim C6. When \<^verbatim>\<open>verifyAuth\<close> yields no identity, the handlers of GET and POST
  \<^verbatim>\<open>/api/nfts\<close>, POST \<^verbatim>\<open>/api/nfts/mint\<close>, POST \<^verbatim>\<open>/api/collections\<close>, and of
  GET \<^verbatim>\<open>/api/collections\<close> unless \<^verbatim>\<open>public=true\<close>, answer 401 with the error body
  \<^verbatim>\<open>Unauthorized\<close>, and hand back the database they were given: no table has changed and
  no storage call has been made.
\<close>

theorem unauthenticated_is_401:
  assumes "verifyAuth req = Inr None"
  shows "nfts_GET verifyAuth d req = (unauthorized, d)
       \<and> nfts_POST verifyAuth is_url d req now = (unauthorized, d)
       \<and> mint_POST verifyAuth d req now = (unauthorized, d)
       \<and> collections_POST verifyAuth is_url d req now = (unauthorized, d)
       \<and> (search_public req \<noteq> Some ''true'' \<longrightarrow>
            collections_GET verifyAuth d req = (unauthorized, d))
       \<and> status unauthorized = 401
       \<and> payload unauthorized = ErrorBody ''Unauthorized''"
  using assms
  by (simp add: nfts_GET_def nfts_POST_def mint_POST_def collections_POST_def
      collections_GET_def unauthorized_def)

theorem unauthenticated_is_401_witness:
  "verify0 anonymous = Inr None
   \<and> search_public anonymous \<noteq> Some ''true''
   \<and> nfts_GET verify0 db1 anonymous = (\<lparr>status = 401, payload = ErrorBody ''Unauthorized''\<rparr>, db1)
   \<and> nfts_POST verify0 (\<lambda>s. True) db1 anonymous 3
       = (\<lparr>status = 401, payload = ErrorBody ''Unauthorized''\<rparr>, db1)
   \<and> mint_POST verify0 db1 anonymous 3
       = (\<lparr>status = 401, payload = ErrorBody ''Unauthorized''\<rparr>, db1)
   \<and> collections_POST verify0 (\<lambda>s. True) db1 anonymous 3
       = (\<lparr>status = 401, payload = ErrorBody ''Unauthorized''\<rparr>, db1)
   \<and> collections_GET verify0 db1 anonymous
       = (\<lparr>status = 401, payload = ErrorBody ''Unauthorized''\<rparr>, db1)"
proof -
  have h1: "verify0 anonymous = Inr None"
    by (simp add: verify0_def anonymous_def)
  have h2: "search_public anonymous \<noteq> Some ''true''"
    by (simp add: anonymous_def)
  from unauthenticated_is_401
         [where verifyAuth = verify0 and req = anonymous and d = db1
            and is_url = "\<lambda>s. True" and now = 3, OF h1] h1 h2 show ?thesis
    by (simp add: unauthorized_def)
qed

text \<open>
  Claim C7. For an authenticated POST \<^verbatim>\<open>/api/nfts/mint\<close> with a body the schema
  accepts, when the read of the NFT goes through: no NFT of that id gives 404; an NFT
  whose \<^verbatim>\<open>ownerId\<close> is not the authenticated \<^verbatim>\<open>userId\<close> gives 403, minted or not;
  the caller's own NFT that is already minted gives 400. In all three the handler has made
  the one read and no write: the NFTs (with their mint status, token id and contract
  address), the transactions and the other tables are as before.
\<close>

theorem mint_POST_rejections:
  assumes "verifyAuth req = Inr (Some user)"
    and "json_body req = Some body"
    and "mintNFTSchema body = Inr m"
    and "calls_ok 1 d"
  shows "(find (\<lambda>n. nft_id n = m_nftId m) (nfts d) = None \<longrightarrow>
            mint_POST verifyAuth d req now
              = (\<lparr>status = 404, payload = ErrorBody ''NFT not found''\<rparr>,
                 d\<lparr>outage := drop 1 (outage d)\<rparr>))
       \<and> (\<forall>n. find (\<lambda>n. nft_id n = m_nftId m) (nfts d) = Some n
                \<and> ownerId n \<noteq> auth_userId user \<longrightarrow>
            mint_POST verifyAuth d req now
              = (\<lparr>status = 403, payload = ErrorBody ''Unauthorized to mint this NFT''\<rparr>,
                 d\<lparr>outage := drop 1 (outage d)\<rparr>))
       \<and> (\<forall>n. find (\<lambda>n. nft_id n = m_nftId m) (nfts d) = Some n
                \<and> ownerId n = auth_userId user \<and> isMinted n \<longrightarrow>
            mint_POST verifyAuth d req now
              = (\<lparr>status = 400, payload = ErrorBody ''NFT is already minted''\<rparr>,
                 d\<lparr>outage := drop 1 (outage d)\<rparr>))"
  using assms storage_call_ok [of 0 d]
  by (simp add: mint_POST_def getNFTById_def after_calls_def)

theorem mint_POST_rejections_witness:
  "verify0 (mint_request_by ''Bearer u1'' ''n9'') = Inr (Some \<lparr>auth_userId = ''u1''\<rparr>)
   \<and> verify0 (mint_request_by ''Bearer u2'' ''n1'') = Inr (Some \<lparr>auth_userId = ''u2''\<rparr>)
   \<and> mintNFTSchema (mint_body ''n2'')
       = Inr \<lparr>m_nftId = ''n2'', m_txHash = ''0xabc'', m_contractAddress = ''SPC.nft'',
              m_tokenId = ''7''\<rparr>
   \<and> calls_ok 1 db1
   \<and> find (\<lambda>n. nft_id n = ''n9'') (nfts db1) = None
   \<and> find (\<lambda>n. nft_id n = ''n1'') (nfts db1) = Some art \<and> ownerId art \<noteq> ''u2''
   \<and> find (\<lambda>n. nft_id n = ''n2'') (nfts db1) = Some minted_art
   \<and> ownerId minted_art = ''u1'' \<and> isMinted minted_art
   \<and> mint_POST verify0 db1 (mint_request_by ''Bearer u1'' ''n9'') 3
       = (\<lparr>status = 404, payload = ErrorBody ''NFT not found''\<rparr>, db1)
   \<and> mint_POST verify0 db1 (mint_request_by ''Bearer u2'' ''n1'') 3
       = (\<lparr>status = 403, payload = ErrorBody ''Unauthorized to mint this NFT''\<rparr>, db1)
   \<and> mint_POST verify0 db1 (mint_request_by ''Bearer u1'' ''n2'') 3
       = (\<lparr>status = 400, payload = ErrorBody ''NFT is already minted''\<rparr>, db1)"
proof -
  have v1: "verify0 (mint_request_by ''Bearer u1'' i) = Inr (Some \<lparr>auth_userId = ''u1''\<rparr>)" for i
    by (simp add: verify0_def mint_request_by_def)
  have v2: "verify0 (mint_request_by ''Bearer u2'' i) = Inr (Some \<lparr>auth_userId = ''u2''\<rparr>)" for i
    by (simp add: verify0_def mint_request_by_def)
  have b: "json_body (mint_request_by w i) = Some (mint_body i)" for w i
    by (simp add: mint_request_by_def)
  have s: "mintNFTSchema (mint_body i)
             = Inr \<lparr>m_nftId = i, m_txHash = ''0xabc'', m_contractAddress = ''SPC.nft'',
                    m_tokenId = ''7''\<rparr>" if "i \<noteq> []" for i
    using that by (simp add: mintNFTSchema_def mint_body_def string_min1_def)
  have s9: "mintNFTSchema (mint_body ''n9'') = Inr \<lparr>m_nftId = ''n9'', m_txHash = ''0xabc'',
              m_contractAddress = ''SPC.nft'', m_tokenId = ''7''\<rparr>"
    by (rule s) simp
  have s1: "mintNFTSchema (mint_body ''n1'') = Inr \<lparr>m_nftId = ''n1'', m_txHash = ''0xabc'',
              m_contractAddress = ''SPC.nft'', m_tokenId = ''7''\<rparr>"
    by (rule s) simp
  have s2: "mintNFTSchema (mint_body ''n2'') = Inr \<lparr>m_nftId = ''n2'', m_txHash = ''0xabc'',
              m_contractAddress = ''SPC.nft'', m_tokenId = ''7''\<rparr>"
    by (rule s) simp
  have c: "calls_ok 1 db1"
    by (simp add: calls_ok_def db1_def db0_def)
  have o: "db1\<lparr>outage := drop 1 (outage db1)\<rparr> = db1"
    by (simp add: db1_def db0_def)
  have f9: "find (\<lambda>n. nft_id n = ''n9'') (nfts db1) = None"
    by (simp add: db1_def art_def minted_art_def)
  have f1: "find (\<lambda>n. nft_id n = ''n1'') (nfts db1) = Some art \<and> ownerId art \<noteq> ''u2''"
    by (simp add: db1_def art_def minted_art_def)
  have f2: "find (\<lambda>n. nft_id n = ''n2'') (nfts db1) = Some minted_art
              \<and> ownerId minted_art = ''u1'' \<and> isMinted minted_art"
    by (simp add: db1_def art_def minted_art_def)
  from mint_POST_rejections
         [where verifyAuth = verify0 and req = "mint_request_by ''Bearer u1'' ''n9''"
            and now = 3, OF v1 b s9 c] f9 o
  have r9: "mint_POST verify0 db1 (mint_request_by ''Bearer u1'' ''n9'') 3
              = (\<lparr>status = 404, payload = ErrorBody ''NFT not found''\<rparr>, db1)"
    by simp
  from mint_POST_rejections
         [where verifyAuth = verify0 and req = "mint_request_by ''Bearer u2'' ''n1''"
            and now = 3, OF v2 b s1 c] f1 o
  have r1: "mint_POST verify0 db1 (mint_request_by ''Bearer u2'' ''n1'') 3
              = (\<lparr>status = 403, payload = ErrorBody ''Unauthorized to mint this NFT''\<rparr>, db1)"
    by simp
  from mint_POST_rejections
         [where verifyAuth = verify0 and req = "mint_request_by ''Bearer u1'' ''n2''"
            and now = 3, OF v1 b s2 c] f2 o
  have r2: "mint_POST verify0 db1 (mint_request_by ''Bearer u1'' ''n2'') 3
              = (\<lparr>status = 400, payload = ErrorBody ''NFT is already minted''\<rparr>, db1)"
    by simp
  from v1 v2 s2 c f9 f1 f2 r9 r1 r2 show ?thesis
    by simp
qed

section \<open>One record per wallet address\<close>

lemma map_update_where:
  "find P xs = Some x \<Longrightarrow> f y = f x \<Longrightarrow> map f (update_where P y xs) = map f xs"
  by (induction xs) (auto split: if_splits)

lemma perform_distinct:
  assumes "distinct (map walletAddress (users d))"
  shows "distinct (map walletAddress (users (perform toISOString c d)))"
  using perform_users [of toISOString c d] assms
  by (auto simp: map_update_where image_iff) metis

lemma perform_all_distinct:
  "distinct (map walletAddress (users d)) \<Longrightarrow>
   distinct (map walletAddress (users (perform_all toISOString calls d)))"
proof (induction calls arbitrary: d)
  case Nil
  then show ?case by (simp add: perform_all_def)
next
  case (Cons c calls)
  from Cons.IH [OF perform_distinct [OF Cons.prems, of toISOString c]]
  show ?case by (simp add: perform_all_def)
qed

lemma createUser_present:
  assumes "\<exists>u \<in> set (users d). walletAddress u = a"
    and "createUser d a now = (r, d')"
  shows "(r = Inl UniqueConstraint \<or> r = Inl StorageFailure) \<and> users d' = users d"
  using assms
  by (auto simp: createUser_def prisma_user_create_def Let_def
      split: prod.splits bool.splits if_splits dest!: storage_call_after)

text \<open>
  Claim C4, as the code has it. The unique index on \<^verbatim>\<open>walletAddress\<close> makes
  \<^verbatim>\<open>createUser\<close> throw for an address that is stored. So a user table with distinct
  wallet addresses keeps them distinct over any sequence of repository calls; and once a
  \<^verbatim>\<open>createUser\<close> for an address has returned, a second one for that address stores
  nothing, leaves exactly one record with the address, and throws the unique-constraint
  error (or a storage failure) to its caller.
\<close>

theorem walletAddress_stays_unique:
  assumes "distinct (map walletAddress (users d))"
  shows "distinct (map walletAddress (users (perform_all toISOString calls d)))
       \<and> (\<forall>su d1 now' r d2.
             createUser d a now = (Inr su, d1) \<and> createUser d1 a now' = (r, d2) \<longrightarrow>
               (r = Inl UniqueConstraint \<or> r = Inl StorageFailure)
               \<and> users d2 = users d1
               \<and> length (filter (\<lambda>u. walletAddress u = a) (users d2)) = 1)"
proof -
  have "(r = Inl UniqueConstraint \<or> r = Inl StorageFailure) \<and> users d2 = users d1
          \<and> length (filter (\<lambda>u. walletAddress u = a) (users d2)) = 1"
    if c1: "createUser d a now = (Inr su, d1)" and c2: "createUser d1 a now' = (r, d2)"
    for su d1 now' r d2
  proof -
    from createUser_Inr [OF c1] obtain u where
      us: "users d1 = users d @ [u]" and wa: "walletAddress u = a"
      and new: "\<forall>x \<in> set (users d). walletAddress x \<noteq> a"
      by auto
    from us wa have "\<exists>x \<in> set (users d1). walletAddress x = a" by auto
    from createUser_present [OF this c2]
    have r: "(r = Inl UniqueConstraint \<or> r = Inl StorageFailure) \<and> users d2 = users d1" .
    from new have "filter (\<lambda>u. walletAddress u = a) (users d) = []"
      by (auto simp: filter_empty_conv)
    with us wa r show ?thesis by simp
  qed
  with perform_all_distinct [OF assms] show ?thesis
    by blast
qed

theorem walletAddress_stays_unique_witness:
  "distinct (map walletAddress (users empty_db))
   \<and> createUser empty_db ''SP123'' 5
       = (Inr \<lparr>csu_id = ''0'', csu_walletAddress = ''SP123''\<rparr>,
          empty_db\<lparr>users := [alice\<lparr>user_id := ''0'', createdAt := 5, updatedAt := 5\<rparr>]\<rparr>)
   \<and> createUser (empty_db\<lparr>users := [alice\<lparr>user_id := ''0'', createdAt := 5, updatedAt := 5\<rparr>]\<rparr>)
        ''SP123'' 6
       = (Inl UniqueConstraint,
          empty_db\<lparr>users := [alice\<lparr>user_id := ''0'', createdAt := 5, updatedAt := 5\<rparr>]\<rparr>)
   \<and> length (filter (\<lambda>u. walletAddress u = ''SP123'')
        (users (empty_db\<lparr>users := [alice\<lparr>user_id := ''0'', createdAt := 5, updatedAt := 5\<rparr>]\<rparr>))) = 1
   \<and> distinct (map walletAddress (users (perform_all iso0
        [CreateUser ''SP123'' 5, CreateUser ''SP123'' 6, UpdateUserLogin ''0'' 7] empty_db)))"
proof -
  let ?d1 = "empty_db\<lparr>users := [alice\<lparr>user_id := ''0'', createdAt := 5, updatedAt := 5\<rparr>]\<rparr>"
  have h: "distinct (map walletAddress (users empty_db))"
    by (simp add: empty_db_def)
  have c1: "createUser empty_db ''SP123'' 5
              = (Inr \<lparr>csu_id = ''0'', csu_walletAddress = ''SP123''\<rparr>, ?d1)"
    by (simp add: createUser_def prisma_user_create_def storage_call_def empty_db_def
        new_object_id_def alice_def Let_def)
  have c2: "createUser ?d1 ''SP123'' 6 = (Inl UniqueConstraint, ?d1)"
    by (simp add: createUser_def prisma_user_create_def storage_call_def empty_db_def
        alice_def Let_def)
  from walletAddress_stays_unique [OF h, of iso0
      "[CreateUser ''SP123'' 5, CreateUser ''SP123'' 6, UpdateUserLogin ''0'' 7]" "''SP123''" 5]
    h c1 c2
  show ?thesis
    by (auto simp: alice_def)
qed

text \<open>
  Claim C4 as stated fails: two requests look the never-seen address up and both find
  nothing; the first \<^verbatim>\<open>createUser\<close> returns the new user, and the second does not go
  on with that record but throws the unique-constraint error.
\<close>

theorem createUser_loser_throws:
  "findUserByWalletAddress empty_db ''SP123'' = (Inr None, empty_db)
   \<and> createUser empty_db ''SP123'' 5
       = (Inr \<lparr>csu_id = ''0'', csu_walletAddress = ''SP123''\<rparr>,
          empty_db\<lparr>users := [alice\<lparr>user_id := ''0'', createdAt := 5, updatedAt := 5\<rparr>]\<rparr>)
   \<and> createUser (empty_db\<lparr>users := [alice\<lparr>user_id := ''0'', createdAt := 5, updatedAt := 5\<rparr>]\<rparr>)
        ''SP123'' 6
       = (Inl UniqueConstraint,
          empty_db\<lparr>users := [alice\<lparr>user_id := ''0'', createdAt := 5, updatedAt := 5\<rparr>]\<rparr>)"
  by (simp add: findUserByWalletAddress_def prisma_user_findUnique_walletAddress_def
      createUser_def prisma_user_create_def storage_call_def empty_db_def
      new_object_id_def alice_def Let_def)

section \<open>Failures during login recording\<close>

lemma addConnectionHistory_Inr_user:
  assumes "addConnectionHistory toISOString d userId connectionData now = (Inr u', d')"
    and "find (\<lambda>u. user_id u = userId) (users d) = Some u"
  shows "u' = u\<lparr>connectionHistory :=
                   JArr (last_n 10 (history_of u @
                           [with_timestamp connectionData (toISOString now)])),
                 updatedAt := now\<rparr>"
proof -
  obtain r d1 where f: "prisma_user_findUnique_id d userId = (r, d1)"
    by (cases "prisma_user_findUnique_id d userId")
  from prisma_user_findUnique_id_result [OF f] assms f
  have r: "r = Inr (Some u)" and u1: "users d1 = users d"
    by (auto simp: addConnectionHistory_def)
  let ?h = "slice (- 10) (history_of u @ [with_timestamp connectionData (toISOString now)])"
  have upd: "prisma_user_update d1 userId (\<lambda>r. r\<lparr>connectionHistory := JArr ?h\<rparr>) now = (Inr u', d')"
    using assms(1) f r by (simp add: addConnectionHistory_def Let_def history_of_def)
  from prisma_user_update_Inr [OF upd] u1 assms(2) show ?thesis
    by (auto simp: slice_10)
qed

lemma updateUserLogin_then_failure:
  assumes f: "find (\<lambda>r. user_id r = userId) (users d) = Some u"
    and s1: "updateUserLogin d userId now = (Inr u1, d1)"
    and s2: "addConnectionHistory toISOString d1 userId c now' = (Inl e, d2)"
  shows "u1 = u\<lparr>lastLoginAt := Some now, loginCount := loginCount u + 1, updatedAt := now\<rparr>
       \<and> find (\<lambda>r. user_id r = userId) (users d2) = Some u1"
proof -
  from updateUserLogin_Inr [OF s1] f
  have u1: "u1 = u\<lparr>lastLoginAt := Some now, loginCount := loginCount u + 1, updatedAt := now\<rparr>"
    and us: "users d1 = update_where (\<lambda>r. user_id r = userId) u1 (users d)"
    by auto
  have "user_id u1 = userId" using find_SomeD [OF f] u1 by simp
  with find_update_where [OF f, of u1] us
  have "find (\<lambda>r. user_id r = userId) (users d1) = Some u1" by simp
  with addConnectionHistory_Inl [OF s2] u1 show ?thesis by simp
qed

lemma addConnectionHistory_then_failure:
  assumes f: "find (\<lambda>r. user_id r = userId) (users d) = Some u"
    and s1: "addConnectionHistory toISOString d userId c now = (Inr u1, d1)"
    and s2: "updateUserLogin d1 userId now' = (Inl e, d2)"
  shows "u1 = u\<lparr>connectionHistory :=
                   JArr (last_n 10 (history_of u @ [with_timestamp c (toISOString now)])),
                 updatedAt := now\<rparr>
       \<and> find (\<lambda>r. user_id r = userId) (users d2) = Some u1"
  using addConnectionHistory_Inr_user [OF s1 f] addConnectionHistory_Inr [OF s1 f]
    updateUserLogin_Inl [OF s2]
  by simp

lemma createUser_then_failure:
  assumes s1: "createUser d a now = (Inr su, d1)"
    and s2: "updateUserLogin d1 (csu_id su) now' = (Inl e, d2)
           \<or> addConnectionHistory toISOString d1 (csu_id su) c now' = (Inl e, d2)"
  shows "\<exists>v. users d2 = users d @ [v] \<and> user_id v = csu_id su \<and> walletAddress v = a
           \<and> loginCount v = 0 \<and> lastLoginAt v = None \<and> connectionHistory v = JArr []"
proof -
  from s2 have "users d2 = users d1"
    using updateUserLogin_Inl [of d1 "csu_id su" now' e d2]
      addConnectionHistory_Inl [of toISOString d1 "csu_id su" c now' e d2]
    by blast
  with createUser_Inr [OF s1] show ?thesis
    by auto
qed

text \<open>
  Claim C3, as the code has it. Login recording is not all-or-nothing. Only a single
  \<^verbatim>\<open>addConnectionHistory\<close> call is: when it throws, at its read, at its check or at
  its write, the user table is as it was before the call. Across the steps nothing is
  undone: \<^verbatim>\<open>createUser\<close>, \<^verbatim>\<open>updateUserLogin\<close> and \<^verbatim>\<open>addConnectionHistory\<close>
  each commit their own storage write, so when one of them has returned and the next step
  throws, what it stored stays. In whichever order the counter update and the history
  update run, the first of them that returned is stored as it returned (the counter one
  higher and the timestamp set, or the entry appended) when the second throws; and the
  record of a user just created stays when the update that follows throws.
\<close>

theorem login_steps_commit_separately:
  "(addConnectionHistory toISOString d userId c now = (Inl e, d') \<longrightarrow> users d' = users d)
   \<and> (find (\<lambda>r. user_id r = userId) (users d) = Some u
        \<and> updateUserLogin d userId now = (Inr w, mid)
        \<and> addConnectionHistory toISOString mid userId c now' = (Inl e, fin) \<longrightarrow>
          w = u\<lparr>lastLoginAt := Some now, loginCount := loginCount u + 1, updatedAt := now\<rparr>
          \<and> find (\<lambda>r. user_id r = userId) (users fin) = Some w)
   \<and> (find (\<lambda>r. user_id r = userId) (users d) = Some u
        \<and> addConnectionHistory toISOString d userId c now = (Inr w, mid)
        \<and> updateUserLogin mid userId now' = (Inl e, fin) \<longrightarrow>
          w = u\<lparr>connectionHistory :=
                    JArr (last_n 10 (history_of u @ [with_timestamp c (toISOString now)])),
                  updatedAt := now\<rparr>
          \<and> find (\<lambda>r. user_id r = userId) (users fin) = Some w)
   \<and> (createUser d a now = (Inr su, mid)
        \<and> (updateUserLogin mid (csu_id su) now' = (Inl e, fin)
           \<or> addConnectionHistory toISOString mid (csu_id su) c now' = (Inl e, fin)) \<longrightarrow>
          (\<exists>v. users fin = users d @ [v] \<and> user_id v = csu_id su \<and> walletAddress v = a
             \<and> loginCount v = 0 \<and> lastLoginAt v = None \<and> connectionHistory v = JArr []))"
proof (intro conjI impI)
  assume "addConnectionHistory toISOString d userId c now = (Inl e, d')"
  then show "users d' = users d" by (rule addConnectionHistory_Inl)
next
  assume a: "find (\<lambda>r. user_id r = userId) (users d) = Some u
        \<and> updateUserLogin d userId now = (Inr w, mid)
        \<and> addConnectionHistory toISOString mid userId c now' = (Inl e, fin)"
  from a updateUserLogin_then_failure [of userId d u now w mid toISOString c now' e fin]
  show "w = u\<lparr>lastLoginAt := Some now, loginCount := loginCount u + 1, updatedAt := now\<rparr>"
    by blast
  from a updateUserLogin_then_failure [of userId d u now w mid toISOString c now' e fin]
  show "find (\<lambda>r. user_id r = userId) (users fin) = Some w"
    by blast
next
  assume a: "find (\<lambda>r. user_id r = userId) (users d) = Some u
        \<and> addConnectionHistory toISOString d userId c now = (Inr w, mid)
        \<and> updateUserLogin mid userId now' = (Inl e, fin)"
  from a addConnectionHistory_then_failure [of userId d u toISOString c now w mid now' e fin]
  show "w = u\<lparr>connectionHistory :=
                  JArr (last_n 10 (history_of u @ [with_timestamp c (toISOString now)])),
                updatedAt := now\<rparr>"
    by blast
  from a addConnectionHistory_then_failure [of userId d u toISOString c now w mid now' e fin]
  show "find (\<lambda>r. user_id r = userId) (users fin) = Some w"
    by blast
next
  assume a: "createUser d a now = (Inr su, mid)
        \<and> (updateUserLogin mid (csu_id su) now' = (Inl e, fin)
           \<or> addConnectionHistory toISOString mid (csu_id su) c now' = (Inl e, fin))"
  from a createUser_then_failure [of d a now su mid now' e fin toISOString c]
  show "\<exists>v. users fin = users d @ [v] \<and> user_id v = csu_id su \<and> walletAddress v = a
           \<and> loginCount v = 0 \<and> lastLoginAt v = None \<and> connectionHistory v = JArr []"
    by blast
qed

theorem login_steps_commit_separately_witness:
  "addConnectionHistory iso0 (db0\<lparr>outage := [False, True]\<rparr>) ''u1'' [(''ip'', JStr ''a'')] 6
     = (Inl StorageFailure, db0)
   \<and> users db0 = users (db0\<lparr>outage := [False, True]\<rparr>)
   \<and> find (\<lambda>r. user_id r = ''u1'') (users (db0\<lparr>outage := [False, False, True]\<rparr>)) = Some alice
   \<and> updateUserLogin (db0\<lparr>outage := [False, False, True]\<rparr>) ''u1'' 9
       = (Inr (alice\<lparr>lastLoginAt := Some 9, loginCount := 1, updatedAt := 9\<rparr>),
          db0\<lparr>users := [alice\<lparr>lastLoginAt := Some 9, loginCount := 1, updatedAt := 9\<rparr>],
              outage := [False, True]\<rparr>)
   \<and> addConnectionHistory iso0
        (db0\<lparr>users := [alice\<lparr>lastLoginAt := Some 9, loginCount := 1, updatedAt := 9\<rparr>],
             outage := [False, True]\<rparr>) ''u1'' [(''ip'', JStr ''a'')] 9
       = (Inl StorageFailure,
          db0\<lparr>users := [alice\<lparr>lastLoginAt := Some 9, loginCount := 1, updatedAt := 9\<rparr>]\<rparr>)
   \<and> find (\<lambda>r. user_id r = ''u1'')
        (users (db0\<lparr>users := [alice\<lparr>lastLoginAt := Some 9, loginCount := 1, updatedAt := 9\<rparr>]\<rparr>))
       = Some (alice\<lparr>lastLoginAt := Some 9, loginCount := 1, updatedAt := 9\<rparr>)
   \<and> addConnectionHistory iso0 (db0\<lparr>outage := [False, False, True]\<rparr>) ''u1''
        [(''ip'', JStr ''a'')] 2
       = (Inr (alice\<lparr>connectionHistory :=
                        JArr [JObj [(''ip'', JStr ''a''), (''timestamp'', JStr ''tt'')]],
                      updatedAt := 2\<rparr>),
          db0\<lparr>users := [alice\<lparr>connectionHistory :=
                                  JArr [JObj [(''ip'', JStr ''a''), (''timestamp'', JStr ''tt'')]],
                                updatedAt := 2\<rparr>],
              outage := [True]\<rparr>)
   \<and> updateUserLogin
        (db0\<lparr>users := [alice\<lparr>connectionHistory :=
                                JArr [JObj [(''ip'', JStr ''a''), (''timestamp'', JStr ''tt'')]],
                              updatedAt := 2\<rparr>],
             outage := [True]\<rparr>) ''u1'' 3
       = (Inl StorageFailure,
          db0\<lparr>users := [alice\<lparr>connectionHistory :=
                                  JArr [JObj [(''ip'', JStr ''a''), (''timestamp'', JStr ''tt'')]],
                                updatedAt := 2\<rparr>]\<rparr>)
   \<and> find (\<lambda>r. user_id r = ''u1'')
        (users (db0\<lparr>users := [alice\<lparr>connectionHistory :=
                                JArr [JObj [(''ip'', JStr ''a''), (''timestamp'', JStr ''tt'')]],
                              updatedAt := 2\<rparr>]\<rparr>))
       = Some (alice\<lparr>connectionHistory :=
                       JArr [JObj [(''ip'', JStr ''a''), (''timestamp'', JStr ''tt'')]],
                     updatedAt := 2\<rparr>)
   \<and> createUser (empty_db\<lparr>outage := [False, True]\<rparr>) ''SP123'' 5
       = (Inr \<lparr>csu_id = ''0'', csu_walletAddress = ''SP123''\<rparr>,
          empty_db\<lparr>users := [alice\<lparr>user_id := ''0'', createdAt := 5, updatedAt := 5\<rparr>],
                   outage := [True]\<rparr>)
   \<and> updateUserLogin
        (empty_db\<lparr>users := [alice\<lparr>user_id := ''0'', createdAt := 5, updatedAt := 5\<rparr>],
                  outage := [True]\<rparr>) ''0'' 6
       = (Inl StorageFailure,
          empty_db\<lparr>users := [alice\<lparr>user_id := ''0'', createdAt := 5, updatedAt := 5\<rparr>]\<rparr>)
   \<and> addConnectionHistory iso0
        (empty_db\<lparr>users := [alice\<lparr>user_id := ''0'', createdAt := 5, updatedAt := 5\<rparr>],
                  outage := [True]\<rparr>) ''0'' [(''ip'', JStr ''a'')] 6
       = (Inl StorageFailure,
          empty_db\<lparr>users := [alice\<lparr>user_id := ''0'', createdAt := 5, updatedAt := 5\<rparr>]\<rparr>)
   \<and> users (empty_db\<lparr>users := [alice\<lparr>user_id := ''0'', createdAt := 5, updatedAt := 5\<rparr>]\<rparr>)
       = users (empty_db\<lparr>outage := [False, True]\<rparr>)
           @ [alice\<lparr>user_id := ''0'', createdAt := 5, updatedAt := 5\<rparr>]"
proof -
  let ?a1 = "alice\<lparr>lastLoginAt := Some 9, loginCount := 1, updatedAt := 9\<rparr>"
  let ?ah = "alice\<lparr>connectionHistory :=
                     JArr [JObj [(''ip'', JStr ''a''), (''timestamp'', JStr ''tt'')]],
                   updatedAt := 2\<rparr>"
  let ?n = "alice\<lparr>user_id := ''0'', createdAt := 5, updatedAt := 5\<rparr>"
  let ?d = "db0\<lparr>outage := [False, False, True]\<rparr>"
  have f: "find (\<lambda>r. user_id r = ''u1'') (users ?d) = Some alice"
    by (simp add: db0_def alice_def)
  have h: "addConnectionHistory iso0 (db0\<lparr>outage := [False, True]\<rparr>) ''u1''
             [(''ip'', JStr ''a'')] 6 = (Inl StorageFailure, db0)"
    by code_simp
  have u1: "updateUserLogin ?d ''u1'' 9
              = (Inr ?a1, db0\<lparr>users := [?a1], outage := [False, True]\<rparr>)"
    by code_simp
  have u2: "addConnectionHistory iso0 (db0\<lparr>users := [?a1], outage := [False, True]\<rparr>) ''u1''
              [(''ip'', JStr ''a'')] 9 = (Inl StorageFailure, db0\<lparr>users := [?a1]\<rparr>)"
    by code_simp
  have a1: "addConnectionHistory iso0 ?d ''u1'' [(''ip'', JStr ''a'')] 2
              = (Inr ?ah, db0\<lparr>users := [?ah], outage := [True]\<rparr>)"
    by code_simp
  have a2: "updateUserLogin (db0\<lparr>users := [?ah], outage := [True]\<rparr>) ''u1'' 3
              = (Inl StorageFailure, db0\<lparr>users := [?ah]\<rparr>)"
    by code_simp
  have c1: "createUser (empty_db\<lparr>outage := [False, True]\<rparr>) ''SP123'' 5
              = (Inr \<lparr>csu_id = ''0'', csu_walletAddress = ''SP123''\<rparr>,
                 empty_db\<lparr>users := [?n], outage := [True]\<rparr>)"
    by code_simp
  have c2: "updateUserLogin (empty_db\<lparr>users := [?n], outage := [True]\<rparr>) ''0'' 6
              = (Inl StorageFailure, empty_db\<lparr>users := [?n]\<rparr>)"
    by code_simp
  note t = login_steps_commit_separately
  from h t [of iso0 "db0\<lparr>outage := [False, True]\<rparr>" "''u1''" "[(''ip'', JStr ''a'')]" 6
              StorageFailure db0]
  have r1: "users db0 = users (db0\<lparr>outage := [False, True]\<rparr>)"
    by blast
  from f u1 u2
    t [where d = ?d and userId = "''u1''" and u = alice and now = 9 and w = ?a1
         and mid = "db0\<lparr>users := [?a1], outage := [False, True]\<rparr>"
         and toISOString = iso0 and c = "[(''ip'', JStr ''a'')]" and now' = 9
         and e = StorageFailure and fin = "db0\<lparr>users := [?a1]\<rparr>"]
  have r2: "find (\<lambda>r. user_id r = ''u1'') (users (db0\<lparr>users := [?a1]\<rparr>)) = Some ?a1"
    by blast
  from f a1 a2
    t [where d = ?d and userId = "''u1''" and u = alice and now = 2 and w = ?ah
         and mid = "db0\<lparr>users := [?ah], outage := [True]\<rparr>"
         and toISOString = iso0 and c = "[(''ip'', JStr ''a'')]" and now' = 3
         and e = StorageFailure and fin = "db0\<lparr>users := [?ah]\<rparr>"]
  have r3: "find (\<lambda>r. user_id r = ''u1'') (users (db0\<lparr>users := [?ah]\<rparr>)) = Some ?ah"
    by blast
  have c3: "addConnectionHistory iso0 (empty_db\<lparr>users := [?n], outage := [True]\<rparr>) ''0''
              [(''ip'', JStr ''a'')] 6 = (Inl StorageFailure, empty_db\<lparr>users := [?n]\<rparr>)"
    by code_simp
  from c2 c3 have c2': "updateUserLogin (empty_db\<lparr>users := [?n], outage := [True]\<rparr>)
                        (csu_id \<lparr>csu_id = ''0'', csu_walletAddress = ''SP123''\<rparr>) 6
                      = (Inl StorageFailure, empty_db\<lparr>users := [?n]\<rparr>)
                    \<and> addConnectionHistory iso0 (empty_db\<lparr>users := [?n], outage := [True]\<rparr>)
                        (csu_id \<lparr>csu_id = ''0'', csu_walletAddress = ''SP123''\<rparr>)
                        [(''ip'', JStr ''a'')] 6
                      = (Inl StorageFailure, empty_db\<lparr>users := [?n]\<rparr>)"
    by simp
  from c1 c2'
    t [where d = "empty_db\<lparr>outage := [False, True]\<rparr>" and a = "''SP123''" and now = 5
         and su = "\<lparr>csu_id = ''0'', csu_walletAddress = ''SP123''\<rparr>"
         and mid = "empty_db\<lparr>users := [?n], outage := [True]\<rparr>"
         and now' = 6 and e = StorageFailure and fin = "empty_db\<lparr>users := [?n]\<rparr>"
         and toISOString = iso0 and c = "[(''ip'', JStr ''a'')]"]
  have "\<exists>v. users (empty_db\<lparr>users := [?n]\<rparr>)
               = users (empty_db\<lparr>outage := [False, True]\<rparr>) @ [v]"
    by blast
  then have r4: "users (empty_db\<lparr>users := [?n]\<rparr>)
                   = users (empty_db\<lparr>outage := [False, True]\<rparr>) @ [?n]"
    by (simp add: empty_db_def)
  from h r1 f u1 u2 r2 a1 a2 r3 c1 c2 c3 r4 show ?thesis
    by blast
qed

text \<open>
  Claim C3 as stated fails, in either order of the two updates. The counter update returns
  and the write of \<^verbatim>\<open>addConnectionHistory\<close> then throws: the login has failed, and
  the counter and the timestamp are stored all the same. Or the history update returns
  and \<^verbatim>\<open>updateUserLogin\<close> then throws: the entry is stored, the counter is not.
\<close>

theorem login_partial_state:
  "updateUserLogin (db0\<lparr>outage := [False, False, True]\<rparr>) ''u1'' 9
     = (Inr (alice\<lparr>lastLoginAt := Some 9, loginCount := 1, updatedAt := 9\<rparr>),
        db0\<lparr>users := [alice\<lparr>lastLoginAt := Some 9, loginCount := 1, updatedAt := 9\<rparr>],
            outage := [False, True]\<rparr>)
   \<and> addConnectionHistory iso0
        (db0\<lparr>users := [alice\<lparr>lastLoginAt := Some 9, loginCount := 1, updatedAt := 9\<rparr>],
             outage := [False, True]\<rparr>) ''u1'' [(''ip'', JStr ''a'')] 9
       = (Inl StorageFailure,
          db0\<lparr>users := [alice\<lparr>lastLoginAt := Some 9, loginCount := 1, updatedAt := 9\<rparr>]\<rparr>)
   \<and> addConnectionHistory iso0 (db0\<lparr>outage := [False, False, True]\<rparr>) ''u1''
        [(''ip'', JStr ''a'')] 2
       = (Inr (alice\<lparr>connectionHistory :=
                        JArr [JObj [(''ip'', JStr ''a''), (''timestamp'', JStr ''tt'')]],
                      updatedAt := 2\<rparr>),
          db0\<lparr>users := [alice\<lparr>connectionHistory :=
                                  JArr [JObj [(''ip'', JStr ''a''), (''timestamp'', JStr ''tt'')]],
                                updatedAt := 2\<rparr>],
              outage := [True]\<rparr>)
   \<and> updateUserLogin
        (db0\<lparr>users := [alice\<lparr>connectionHistory :=
                                JArr [JObj [(''ip'', JStr ''a''), (''timestamp'', JStr ''tt'')]],
                              updatedAt := 2\<rparr>],
             outage := [True]\<rparr>) ''u1'' 3
       = (Inl StorageFailure,
          db0\<lparr>users := [alice\<lparr>connectionHistory :=
                                  JArr [JObj [(''ip'', JStr ''a''), (''timestamp'', JStr ''tt'')]],
                                updatedAt := 2\<rparr>]\<rparr>)
   \<and> loginCount alice = 0 \<and> lastLoginAt alice = None \<and> connectionHistory alice = JArr []"
  by code_simp

section \<open>Two calls at once\<close>


text \<open>The steps of a call, taken one after the other, are the call.\<close>

lemma run_addConnectionHistory_alone:
  "run toISOString [A, A] (d, AddConnectionHistory_call userId connectionData now, b)
     = (case addConnectionHistory toISOString d userId connectionData now of
          (r, d') \<Rightarrow> (d', Returned r, b))"
  by (auto simp: addConnectionHistory_def Let_def
      split: prod.splits sum.splits option.splits)

lemma run_updateUserLogin_alone:
  "run toISOString [A] (d, UpdateUserLogin_call userId now, b)
     = (case updateUserLogin d userId now of (r, d') \<Rightarrow> (d', Returned r, b))"
  by (simp split: prod.splits)









end
